theory Spec2Isabelle
  imports Complex_Main "HOL-Library.Multiset"
begin

section \<open>JavaScript values\<close>

text \<open>
  The routes handle untyped JavaScript values: a column read back from SQLite, a field of
  a parsed JSON document, the operand of \<^verbatim>\<open>||\<close>. Numbers are the exact rational value of
  the double; \<^verbatim>\<open>NaN\<close> and the infinities cannot come out of \<^verbatim>\<open>JSON.parse\<close> or SQLite here.
\<close>

datatype jsval =
    JUndefined
  | JNull
  | JBool bool
  | JNum rat
  | JStr string
  | JArr "jsval list"
  | JObj "(string \<times> jsval) list"

text \<open>ToBoolean: the falsy values are undefined, null, false, 0 and the empty string.\<close>

fun truthy :: "jsval \<Rightarrow> bool" where
  "truthy JUndefined = False"
| "truthy JNull = False"
| "truthy (JBool b) = b"
| "truthy (JNum n) = (n \<noteq> 0)"
| "truthy (JStr s) = (s \<noteq> [])"
| "truthy (JArr xs) = True"
| "truthy (JObj kvs) = True"

text \<open>\<^verbatim>\<open>a || b\<close> yields \<^verbatim>\<open>a\<close> when it is truthy and \<^verbatim>\<open>b\<close> otherwise.\<close>

definition js_or :: "jsval \<Rightarrow> jsval \<Rightarrow> jsval" where
  "js_or a b = (if truthy a then a else b)"

text \<open>
  The content of a TEXT column that may hold a serialised object: either a plain string, or
  the text \<^verbatim>\<open>JSON.stringify(v)\<close>, kept as the value \<open>v\<close> it serialises. No operation below
  compares or parses such a text.
\<close>

datatype js_text = Text string | Stringified jsval

text \<open>
  A value bound to a statement parameter and read back: \<^verbatim>\<open>undefined\<close> is stored as NULL and
  a boolean as the integer 1 or 0. Numbers, strings and NULL come back as they are; what
  the driver does with an array or an object is not modelled, and they are kept as well.
\<close>

fun sql_bind :: "jsval \<Rightarrow> jsval" where
  "sql_bind JUndefined = JNull"
| "sql_bind (JBool b) = JNum (if b then 1 else 0)"
| "sql_bind v = v"

section \<open>The tables of models/database.js\<close>

text \<open>
  One record per table row, one field per column. A nullable column is an option
  (\<open>None\<close> is NULL); a NOT NULL column has no option. The three clock columns
  (\<^verbatim>\<open>timestamp\<close>, \<^verbatim>\<open>created_at\<close>, \<^verbatim>\<open>updated_at\<close>, all filled by CURRENT\_TIMESTAMP) are left
  out: no operation below reads them. Foreign keys are declared but SQLite enforces them
  only after \<^verbatim>\<open>PRAGMA foreign_keys = ON\<close>, which the repository never issues.
\<close>

record transaction_row =
  tr_id :: nat
  tr_transaction_id :: string
  tr_user_id :: string
  tr_amount :: rat
  tr_currency :: "string option"
  tr_merchant_name :: "string option"
  tr_merchant_category :: "string option"
  tr_transaction_type :: string
  tr_location_lat :: "rat option"
  tr_location_lng :: "rat option"
  tr_device_id :: "string option"
  tr_ip_address :: "string option"
  tr_is_fraud :: jsval
  tr_fraud_score :: jsval
  tr_fraud_reason :: jsval

record alert_row =
  fa_id :: nat
  fa_transaction_id :: string
  fa_alert_type :: string
  fa_severity :: string
  fa_confidence_score :: rat
  fa_ml_model_used :: string
  fa_features :: "js_text option"
  fa_cardano_tx_hash :: "string option"
  fa_cardano_nft_id :: "string option"
  fa_status :: string

record blockchain_row =
  br_id :: nat
  br_transaction_id :: string
  br_cardano_tx_hash :: string
  br_nft_id :: "string option"
  br_metadata :: "js_text option"
  br_block_height :: "int option"
  br_confirmation_status :: string

text \<open>
  The object handed to \<^verbatim>\<open>createFraudAlertTransaction\<close> beside the transaction.
\<close>

record fraud_prediction =
  fp_is_fraud :: jsval
  fp_fraud_score :: jsval
  fp_confidence :: jsval

text \<open>
  The state: the three tables, and the trace of the calls made so far to
  \<^verbatim>\<open>cardanoIntegration.createFraudAlertTransaction\<close> (the submissions to the ledger).
\<close>

record world =
  transactions :: "transaction_row list"
  fraud_alerts :: "alert_row list"
  blockchain_records :: "blockchain_row list"
  ledger_calls :: "(transaction_row \<times> fraud_prediction) list"

definition empty_world :: world where
  "empty_world = \<lparr>transactions = [], fraud_alerts = [], blockchain_records = [], ledger_calls = []\<rparr>"

section \<open>dbHelpers.createBlockchainRecord\<close>

text \<open>
  The object a caller passes as \<^verbatim>\<open>recordData\<close>. The helper destructures the first five
  properties only; \<^verbatim>\<open>confirmation_status\<close> and \<^verbatim>\<open>created_at\<close> are properties that callers'
  objects carry (see \<^verbatim>\<open>generateBlockchainRecords\<close>) and that the INSERT never names.
  \<open>None\<close> is an undefined or null property.
\<close>

record record_data =
  rd_transaction_id :: "string option"
  rd_cardano_tx_hash :: "string option"
  rd_nft_id :: "string option"
  rd_metadata :: "js_text option"
  rd_block_height :: "int option"
  rd_confirmation_status :: "string option"
  rd_created_at :: "string option"

text \<open>
  A rejected promise carries an Error; the model keeps its \<^verbatim>\<open>message\<close>. The INSERT names
  five columns, so \<^verbatim>\<open>confirmation_status\<close> takes the column default \<^verbatim>\<open>'pending'\<close>. It fails on
  a NULL in a NOT NULL column and on a hash that a stored row already has (UNIQUE); a
  failed statement changes nothing. The new \<^verbatim>\<open>id\<close> is \<^verbatim>\<open>this.lastID\<close>; no row is ever deleted,
  so AUTOINCREMENT gives the number of rows plus one.
\<close>

definition createBlockchainRecord :: "world \<Rightarrow> record_data \<Rightarrow> string + (world \<times> nat)" where
  "createBlockchainRecord w recordData =
     (case rd_transaction_id recordData of
        None \<Rightarrow> Inl ''SQLITE_CONSTRAINT: NOT NULL constraint failed: blockchain_records.transaction_id''
      | Some tid \<Rightarrow>
         (case rd_cardano_tx_hash recordData of
            None \<Rightarrow> Inl ''SQLITE_CONSTRAINT: NOT NULL constraint failed: blockchain_records.cardano_tx_hash''
          | Some h \<Rightarrow>
             if h \<in> set (map br_cardano_tx_hash (blockchain_records w))
             then Inl ''SQLITE_CONSTRAINT: UNIQUE constraint failed: blockchain_records.cardano_tx_hash''
             else
               let lastID = Suc (length (blockchain_records w)) in
               Inr (w\<lparr>blockchain_records := blockchain_records w @
                      [\<lparr>br_id = lastID,
                        br_transaction_id = tid,
                        br_cardano_tx_hash = h,
                        br_nft_id = rd_nft_id recordData,
                        br_metadata = rd_metadata recordData,
                        br_block_height = rd_block_height recordData,
                        br_confirmation_status = ''pending''\<rparr>]\<rparr>,
                    lastID)))"

text \<open>
  The insertion loop of \<^verbatim>\<open>seedDatabase\<close>: each record is inserted in turn, and a failure is
  caught (logged unless it is a UNIQUE violation) and the loop goes on.
\<close>

fun seed_blockchain_records :: "world \<Rightarrow> record_data list \<Rightarrow> world" where
  "seed_blockchain_records w [] = w"
| "seed_blockchain_records w (r # rs) =
     (case createBlockchainRecord w r of
        Inl err \<Rightarrow> seed_blockchain_records w rs
      | Inr (w', lastID) \<Rightarrow> seed_blockchain_records w' rs)"

text \<open>The hashes of the stored ledger records, in insertion order.\<close>

definition stored_hashes :: "world \<Rightarrow> string list" where
  "stored_hashes w = map br_cardano_tx_hash (blockchain_records w)"

section \<open>The other helpers of dbHelpers\<close>

text \<open>
  \<^verbatim>\<open>getTransaction\<close>: \<^verbatim>\<open>db.get\<close> resolves with the first matching row, or \<^verbatim>\<open>undefined\<close>. An
  undefined or null identifier is bound as NULL, which equals no stored identifier.
\<close>

definition getTransaction :: "world \<Rightarrow> string option \<Rightarrow> transaction_row option" where
  "getTransaction w transactionId =
     (case transactionId of
        None \<Rightarrow> None
      | Some tid \<Rightarrow> find (\<lambda>row. tr_transaction_id row = tid) (transactions w))"

text \<open>
  The object passed to \<^verbatim>\<open>createFraudAlert\<close>, with the eight properties it destructures and
  the \<^verbatim>\<open>created_at\<close> that the demo generator adds.
\<close>

record alert_data =
  ad_transaction_id :: "string option"
  ad_alert_type :: "string option"
  ad_severity :: "string option"
  ad_confidence_score :: "rat option"
  ad_ml_model_used :: "string option"
  ad_features :: "js_text option"
  ad_cardano_tx_hash :: "string option"
  ad_cardano_nft_id :: "string option"
  ad_created_at :: "string option"

text \<open>
  \<^verbatim>\<open>createFraudAlert\<close>: the INSERT names eight columns; \<^verbatim>\<open>status\<close> takes its default
  \<^verbatim>\<open>'active'\<close>. Five columns are NOT NULL; the table has no UNIQUE column.
\<close>

definition createFraudAlert :: "world \<Rightarrow> alert_data \<Rightarrow> string + (world \<times> nat)" where
  "createFraudAlert w alertData =
     (case ad_transaction_id alertData of
        None \<Rightarrow> Inl ''SQLITE_CONSTRAINT: NOT NULL constraint failed: fraud_alerts.transaction_id''
      | Some tid \<Rightarrow>
     (case ad_alert_type alertData of
        None \<Rightarrow> Inl ''SQLITE_CONSTRAINT: NOT NULL constraint failed: fraud_alerts.alert_type''
      | Some ty \<Rightarrow>
     (case ad_severity alertData of
        None \<Rightarrow> Inl ''SQLITE_CONSTRAINT: NOT NULL constraint failed: fraud_alerts.severity''
      | Some sev \<Rightarrow>
     (case ad_confidence_score alertData of
        None \<Rightarrow> Inl ''SQLITE_CONSTRAINT: NOT NULL constraint failed: fraud_alerts.confidence_score''
      | Some score \<Rightarrow>
     (case ad_ml_model_used alertData of
        None \<Rightarrow> Inl ''SQLITE_CONSTRAINT: NOT NULL constraint failed: fraud_alerts.ml_model_used''
      | Some model \<Rightarrow>
          let lastID = Suc (length (fraud_alerts w)) in
          Inr (w\<lparr>fraud_alerts := fraud_alerts w @
                 [\<lparr>fa_id = lastID,
                   fa_transaction_id = tid,
                   fa_alert_type = ty,
                   fa_severity = sev,
                   fa_confidence_score = score,
                   fa_ml_model_used = model,
                   fa_features = ad_features alertData,
                   fa_cardano_tx_hash = ad_cardano_tx_hash alertData,
                   fa_cardano_nft_id = ad_cardano_nft_id alertData,
                   fa_status = ''active''\<rparr>]\<rparr>,
               lastID))))))"

text \<open>
  \<^verbatim>\<open>updateFraudAlertWithBlockchain\<close> (routes/fraud.js): an UPDATE of two nullable columns of
  the rows with the given \<^verbatim>\<open>id\<close>.
\<close>

definition updateFraudAlertWithBlockchain :: "world \<Rightarrow> nat \<Rightarrow> record_data \<Rightarrow> world" where
  "updateFraudAlertWithBlockchain w alertId blockchainRecord =
     w\<lparr>fraud_alerts :=
         map (\<lambda>row. if fa_id row = alertId
                     then row\<lparr>fa_cardano_tx_hash := rd_cardano_tx_hash blockchainRecord,
                              fa_cardano_nft_id := rd_nft_id blockchainRecord\<rparr>
                     else row)
             (fraud_alerts w)\<rparr>"

section \<open>The demo generators (demo/demo\_data.js) and the seeding verdict\<close>

text \<open>A transaction object as \<^verbatim>\<open>generateDemoTransactions\<close> builds it.\<close>

record demo_transaction =
  dt_transaction_id :: string
  dt_user_id :: string
  dt_amount :: rat
  dt_currency :: string
  dt_merchant_name :: string
  dt_merchant_category :: string
  dt_transaction_type :: string
  dt_location_lat :: rat
  dt_location_lng :: rat
  dt_device_id :: string
  dt_ip_address :: string
  dt_timestamp :: string
  dt_hour :: int
  dt_day_of_week :: int
  dt_user_age :: int
  dt_account_age_days :: int
  dt_previous_fraud_count :: int
  dt_device_type :: string
  dt_is_weekend :: int
  dt_is_holiday :: int

text \<open>
  The condition under which \<^verbatim>\<open>generateFraudAlerts\<close> raises an alert; \<^verbatim>\<open>&&\<close> binds tighter
  than \<^verbatim>\<open>||\<close>. \<^verbatim>\<open>seedDatabase\<close> computes its verdict \<^verbatim>\<open>isFraud\<close> with the same expression.
\<close>

definition suspicious :: "demo_transaction \<Rightarrow> bool" where
  "suspicious t \<longleftrightarrow>
     dt_amount t > 1000
     \<or> (dt_hour t \<ge> 2 \<and> dt_hour t \<le> 5)
     \<or> (dt_merchant_category t = ''online_shopping'' \<and> dt_amount t > 500)"

definition seed_isFraud :: "demo_transaction \<Rightarrow> bool" where
  "seed_isFraud t \<longleftrightarrow>
     dt_amount t > 1000
     \<or> (dt_hour t \<ge> 2 \<and> dt_hour t \<le> 5)
     \<or> (dt_merchant_category t = ''online_shopping'' \<and> dt_amount t > 500)"

text \<open>
  The generators call \<^verbatim>\<open>new Date().toISOString()\<close>, \<^verbatim>\<open>Math.random\<close> and
  \<^verbatim>\<open>crypto.randomBytes\<close>. The clock is the parameter \<open>now\<close>; the random values are
  parameters too, one bundle of draws for the \<open>k\<close>-th object pushed.
\<close>

definition alert_features :: "demo_transaction \<Rightarrow> jsval" where
  "alert_features t =
     JObj [(''amount'', JNum (dt_amount t)),
           (''hour'', JNum (of_int (dt_hour t))),
           (''merchant_category'', JStr (dt_merchant_category t)),
           (''is_weekend'', JNum (of_int (dt_is_weekend t))),
           (''is_holiday'', JNum (of_int (dt_is_holiday t)))]"

definition demo_alert :: "string \<Rightarrow> rat \<Rightarrow> demo_transaction \<Rightarrow> alert_data" where
  "demo_alert now confidence_draw t =
     \<lparr>ad_transaction_id = Some (dt_transaction_id t),
      ad_alert_type = Some ''FRAUD_ALERT'',
      ad_severity = Some (if dt_amount t > 2000 then ''high''
                          else if dt_amount t > 1000 then ''medium'' else ''low''),
      ad_confidence_score = Some (confidence_draw * (4 / 10) + 6 / 10),
      ad_ml_model_used = Some ''XGBoost + KMeans'',
      ad_features = Some (Stringified (alert_features t)),
      ad_cardano_tx_hash = None,
      ad_cardano_nft_id = None,
      ad_created_at = Some now\<rparr>"

definition generateFraudAlerts ::
  "string \<Rightarrow> (nat \<Rightarrow> rat) \<Rightarrow> demo_transaction list \<Rightarrow> alert_data list" where
  "generateFraudAlerts now draws txs =
     map (\<lambda>(k, t). demo_alert now (draws k) t)
         (enumerate 0 (filter suspicious txs))"

record record_draws =
  hash_hex :: string
  nft_draw :: rat
  nft_hex_upper :: string
  height_draw :: rat
  status_draw :: rat

text \<open>The object literal that \<^verbatim>\<open>generateBlockchainRecords\<close> serialises as the metadata.\<close>

definition record_metadata :: "demo_transaction \<Rightarrow> (string \<times> jsval) list" where
  "record_metadata t =
     [(''transactionID'', JStr (dt_transaction_id t)),
      (''amount'', JNum (dt_amount t)),
      (''flag'', JStr (if dt_amount t > 2000 then ''Suspicious'' else ''Legitimate'')),
      (''timestamp'', JStr (dt_timestamp t)),
      (''merchantName'', JStr (dt_merchant_name t)),
      (''merchantCategory'', JStr (dt_merchant_category t))]"

definition demo_record :: "string \<Rightarrow> record_draws \<Rightarrow> demo_transaction \<Rightarrow> record_data" where
  "demo_record now d t =
     \<lparr>rd_transaction_id = Some (dt_transaction_id t),
      rd_cardano_tx_hash = Some (''0x'' @ hash_hex d),
      rd_nft_id = (if nft_draw d < 3 / 10 then Some (''NFT'' @ nft_hex_upper d) else None),
      rd_metadata = Some (Stringified (JObj (record_metadata t))),
      rd_block_height = Some (\<lfloor>height_draw d * 1000000\<rfloor> + 1000000),
      rd_confirmation_status = Some (if status_draw d < 8 / 10 then ''confirmed'' else ''pending''),
      rd_created_at = Some now\<rparr>"

definition generateBlockchainRecords ::
  "string \<Rightarrow> (nat \<Rightarrow> record_draws) \<Rightarrow> demo_transaction list \<Rightarrow> record_data list" where
  "generateBlockchainRecords now draws txs =
     map (\<lambda>(k, t). demo_record now (draws k) t)
         (enumerate 0 (filter (\<lambda>t. dt_amount t > 1000) txs))"

section \<open>The routes that record an alert\<close>

text \<open>
  \<^verbatim>\<open>blockchain/cardano_integration.js\<close> is not among the sources, so
  \<^verbatim>\<open>cardanoIntegration.createFraudAlertTransaction\<close> is a parameter of every route that calls
  it: given the number of calls made before, the transaction row and the prediction, it
  either throws (\<open>Inl\<close>, the Error's message) or resolves with a record object. Every
  theorem about a route holds for all such parameters.
\<close>

type_synonym integration = "nat \<Rightarrow> transaction_row \<Rightarrow> fraud_prediction \<Rightarrow> string + record_data"

datatype 'a response =
    Created 'a
  | Bad_Request string
  | Not_Found string "string option"
  | Conflict string "string option"
  | Server_Error string string

text \<open>The status code of each answer.\<close>

fun status_code :: "'a response \<Rightarrow> nat" where
  "status_code (Created body) = 201"
| "status_code (Bad_Request err) = 400"
| "status_code (Not_Found err tid) = 404"
| "status_code (Conflict err tid) = 409"
| "status_code (Server_Error err msg) = 500"

record record_created =
  rc_success :: bool
  rc_transaction_id :: "string option"
  rc_blockchain_record :: record_data
  rc_message :: string

text \<open>\<^verbatim>\<open>!x\<close> for a string property: true when it is missing or the empty string.\<close>

definition missing :: "string option \<Rightarrow> bool" where
  "missing x \<longleftrightarrow> (case x of None \<Rightarrow> True | Some s \<Rightarrow> s = [])"

text \<open>The prediction that both blockchain routes build from the stored transaction.\<close>

definition stored_prediction :: "transaction_row \<Rightarrow> fraud_prediction" where
  "stored_prediction transaction =
     \<lparr>fp_is_fraud = js_or (tr_is_fraud transaction) (JBool False),
      fp_fraud_score = js_or (tr_fraud_score transaction) (JNum 0),
      fp_confidence = js_or (tr_fraud_score transaction) (JNum 0)\<rparr>"

text \<open>
  The call of the integration: it is appended to the trace whatever it returns.
\<close>

definition call_integration ::
  "integration \<Rightarrow> world \<Rightarrow> transaction_row \<Rightarrow> fraud_prediction \<Rightarrow> (string + record_data) \<times> world" where
  "call_integration cardano w transaction fraudPrediction =
     (cardano (length (ledger_calls w)) transaction fraudPrediction,
      w\<lparr>ledger_calls := ledger_calls w @ [(transaction, fraudPrediction)]\<rparr>)"

text \<open>
  \<^verbatim>\<open>POST /api/blockchain/record\<close> (routes/blockchain.js). The body's \<^verbatim>\<open>metadata\<close> is
  destructured and never used. Every failure after the two checks lands in the handler's
  \<^verbatim>\<open>catch\<close>, which answers 500.
\<close>

definition post_record ::
  "integration \<Rightarrow> world \<Rightarrow> string option \<Rightarrow> record_created response \<times> world" where
  "post_record cardano w transaction_id =
     (if missing transaction_id
      then (Bad_Request ''Missing required field: transaction_id'', w)
      else
        case getTransaction w transaction_id of
          None \<Rightarrow> (Not_Found ''Transaction not found'' transaction_id, w)
        | Some transaction \<Rightarrow>
            let fraudPrediction = stored_prediction transaction in
            (case call_integration cardano w transaction fraudPrediction of
               (Inl message, w1) \<Rightarrow>
                 (Server_Error ''Failed to record transaction on blockchain'' message, w1)
             | (Inr blockchainRecord, w1) \<Rightarrow>
                 (case createBlockchainRecord w1 blockchainRecord of
                    Inl message \<Rightarrow>
                      (Server_Error ''Failed to record transaction on blockchain'' message, w1)
                  | Inr (w2, lastID) \<Rightarrow>
                      (Created \<lparr>rc_success = True,
                                rc_transaction_id = transaction_id,
                                rc_blockchain_record = blockchainRecord,
                                rc_message = ''Transaction recorded on blockchain successfully''\<rparr>,
                       w2))))"

text \<open>
  The body of \<^verbatim>\<open>POST /api/fraud/alert\<close> (routes/fraud.js). \<^verbatim>\<open>!confidence_score\<close> also rejects
  a score of 0.
\<close>

record alert_request =
  ar_transaction_id :: "string option"
  ar_alert_type :: "string option"
  ar_severity :: "string option"
  ar_confidence_score :: "rat option"
  ar_ml_model_used :: "string option"
  ar_features :: jsval

record alert_created =
  ac_success :: bool
  ac_alert_id :: nat
  ac_transaction_id :: "string option"
  ac_blockchain_record :: record_data
  ac_message :: string

definition post_alert ::
  "integration \<Rightarrow> world \<Rightarrow> alert_request \<Rightarrow> alert_created response \<times> world" where
  "post_alert cardano w body =
     (if missing (ar_transaction_id body) \<or> missing (ar_alert_type body)
         \<or> missing (ar_severity body)
         \<or> (case ar_confidence_score body of None \<Rightarrow> True | Some c \<Rightarrow> c = 0)
      then (Bad_Request
              ''Missing required fields: transaction_id, alert_type, severity, confidence_score'', w)
      else
        case getTransaction w (ar_transaction_id body) of
          None \<Rightarrow> (Not_Found ''Transaction not found'' (ar_transaction_id body), w)
        | Some transaction \<Rightarrow>
            let alertData =
                  \<lparr>ad_transaction_id = ar_transaction_id body,
                   ad_alert_type = ar_alert_type body,
                   ad_severity = ar_severity body,
                   ad_confidence_score = ar_confidence_score body,
                   ad_ml_model_used =
                     (if missing (ar_ml_model_used body) then Some ''XGBoost + KMeans''
                      else ar_ml_model_used body),
                   ad_features = Some (Stringified (js_or (ar_features body) (JObj []))),
                   ad_cardano_tx_hash = None,
                   ad_cardano_nft_id = None,
                   ad_created_at = None\<rparr>
            in
            (case createFraudAlert w alertData of
               Inl message \<Rightarrow> (Server_Error ''Failed to create fraud alert'' message, w)
             | Inr (w1, alert_id) \<Rightarrow>
                 let fraudPrediction =
                       \<lparr>fp_is_fraud = JBool True,
                        fp_fraud_score = (case ar_confidence_score body of
                                            None \<Rightarrow> JUndefined | Some c \<Rightarrow> JNum c),
                        fp_confidence = (case ar_confidence_score body of
                                            None \<Rightarrow> JUndefined | Some c \<Rightarrow> JNum c)\<rparr>
                 in
                 (case call_integration cardano w1 transaction fraudPrediction of
                    (Inl message, w2) \<Rightarrow> (Server_Error ''Failed to create fraud alert'' message, w2)
                  | (Inr blockchainRecord, w2) \<Rightarrow>
                      let w3 = updateFraudAlertWithBlockchain w2 alert_id blockchainRecord in
                      (case createBlockchainRecord w3 blockchainRecord of
                         Inl message \<Rightarrow> (Server_Error ''Failed to create fraud alert'' message, w3)
                       | Inr (w4, lastID) \<Rightarrow>
                           (Created \<lparr>ac_success = True,
                                     ac_alert_id = alert_id,
                                     ac_transaction_id = ar_transaction_id body,
                                     ac_blockchain_record = blockchainRecord,
                                     ac_message = ''Fraud alert created and recorded on blockchain''\<rparr>,
                            w4)))))"

section \<open>String operations of the scoring bridge\<close>

text \<open>
  The output of the scoring process is taken as ASCII text. \<^verbatim>\<open>trim\<close> strips the white space
  at both ends (tab, line feed, vertical tab, form feed, carriage return, space).
\<close>

definition is_space :: "char \<Rightarrow> bool" where
  "is_space c \<longleftrightarrow> c \<in> set [CHR 0x09, CHR 0x0A, CHR 0x0B, CHR 0x0C, CHR 0x0D, CHR '' '']"

definition trim :: "string \<Rightarrow> string" where
  "trim s = rev (dropWhile is_space (rev (dropWhile is_space s)))"

text \<open>\<^verbatim>\<open>s.split(c)\<close> for a one-character separator: never the empty array.\<close>

fun split_char :: "char \<Rightarrow> string \<Rightarrow> string list" where
  "split_char sep [] = [[]]"
| "split_char sep (c # cs) =
     (if c = sep then [] # split_char sep cs
      else (case split_char sep cs of
              [] \<Rightarrow> [[c]]
            | piece # pieces \<Rightarrow> (c # piece) # pieces))"

fun starts_with :: "string \<Rightarrow> string \<Rightarrow> bool" where
  "starts_with s [] = True"
| "starts_with [] (p # ps) = False"
| "starts_with (c # cs) (p # ps) = (c = p \<and> starts_with cs ps)"

text \<open>\<^verbatim>\<open>s.includes(p)\<close>.\<close>

fun includes_str :: "string \<Rightarrow> string \<Rightarrow> bool" where
  "includes_str [] p = (p = [])"
| "includes_str (c # cs) p = (starts_with (c # cs) p \<or> includes_str cs p)"

text \<open>
  \<^verbatim>\<open>s.split(sep)\<close> for a separator string; with the empty separator JavaScript splits into
  the single characters.
\<close>

function split_str :: "string \<Rightarrow> string \<Rightarrow> string list" where
  "split_str [] s = map (\<lambda>c. [c]) s"
| "split_str (p # ps) [] = [[]]"
| "split_str (p # ps) (c # cs) =
     (if starts_with (c # cs) (p # ps)
      then [] # split_str (p # ps) (drop (length ps) cs)
      else (case split_str (p # ps) cs of
              [] \<Rightarrow> [[c]]
            | piece # pieces \<Rightarrow> (c # piece) # pieces))"
  by pat_completeness auto
termination
  by (relation "measure (\<lambda>(sep, s). length s)") auto

text \<open>\<^verbatim>\<open>xs[1]\<close>: the second element, or \<^verbatim>\<open>undefined\<close>.\<close>

fun second :: "'a list \<Rightarrow> 'a option" where
  "second (x # y # ys) = Some y"
| "second xs = None"

text \<open>The decimal digits of a number, as a template literal prints a length.\<close>

function string_of_nat :: "nat \<Rightarrow> string" where
  "string_of_nat n =
     (if n < 10 then [''0123456789'' ! n]
      else string_of_nat (n div 10) @ [''0123456789'' ! (n mod 10)])"
  by pat_completeness auto
termination
  by (relation "measure id") auto

declare string_of_nat.simps [simp del]

section \<open>runFraudDetection (routes/transactions.js)\<close>

text \<open>
  Reading a property: a TypeError (\<open>None\<close>) on \<^verbatim>\<open>null\<close> and \<^verbatim>\<open>undefined\<close>, \<^verbatim>\<open>undefined\<close> for
  a property that the value does not have. The object that \<^verbatim>\<open>JSON.parse\<close> returns has each
  key once. None of the property names read here exists on a number, a string, a boolean
  or an array.
\<close>

fun get_prop :: "jsval \<Rightarrow> string \<Rightarrow> jsval option" where
  "get_prop JUndefined k = None"
| "get_prop JNull k = None"
| "get_prop (JObj kvs) k = Some (case map_of kvs k of None \<Rightarrow> JUndefined | Some v \<Rightarrow> v)"
| "get_prop v k = Some JUndefined"

text \<open>
  ToNumber for the comparison \<^verbatim>\<open>v > r\<close>; \<open>None\<close> is NaN, for which every comparison is
  false. The conversion of a string, an array or an object is the parameter \<open>to_number\<close>.
\<close>

fun js_to_number :: "(jsval \<Rightarrow> rat option) \<Rightarrow> jsval \<Rightarrow> rat option" where
  "js_to_number to_number JUndefined = None"
| "js_to_number to_number JNull = Some 0"
| "js_to_number to_number (JBool b) = Some (if b then 1 else 0)"
| "js_to_number to_number (JNum n) = Some n"
| "js_to_number to_number v = to_number v"

definition js_gt :: "(jsval \<Rightarrow> rat option) \<Rightarrow> jsval \<Rightarrow> rat \<Rightarrow> bool" where
  "js_gt to_number v r = (case js_to_number to_number v of None \<Rightarrow> False | Some n \<Rightarrow> n > r)"

text \<open>\<^verbatim>\<open>reasons.join(', ')\<close>.\<close>

fun join_comma :: "string list \<Rightarrow> string" where
  "join_comma [] = []"
| "join_comma [x] = x"
| "join_comma (x # y # ys) = x @ '', '' @ join_comma (y # ys)"

record detection =
  fd_is_fraud :: jsval
  fd_fraud_score :: jsval
  fd_fraud_reason :: string
  fd_confidence :: jsval
  fd_xgb_probability :: jsval
  fd_kmeans_anomaly :: jsval

text \<open>The object of the three fallback branches.\<close>

definition fallback_prediction :: detection where
  "fallback_prediction =
     \<lparr>fd_is_fraud = JNum 0,
      fd_fraud_score = JNum (1 / 10),
      fd_fraud_reason = ''Legitimate transaction'',
      fd_confidence = JNum (9 / 10),
      fd_xgb_probability = JNum (1 / 10),
      fd_kmeans_anomaly = JNum 0\<rparr>"

text \<open>
  The statements after \<^verbatim>\<open>JSON.parse\<close>: the fraud reason and the resolved object. \<open>None\<close> is
  the TypeError of reading a property of \<^verbatim>\<open>null\<close>.
\<close>

definition read_prediction :: "(jsval \<Rightarrow> rat option) \<Rightarrow> jsval \<Rightarrow> detection option" where
  "read_prediction to_number prediction =
     (case (get_prop prediction ''is_fraud'', get_prop prediction ''xgb_probability'',
            get_prop prediction ''kmeans_anomaly'', get_prop prediction ''anomaly_distance'',
            get_prop prediction ''fraud_score'', get_prop prediction ''confidence'') of
        (Some p_is_fraud, Some p_xgb_probability, Some p_kmeans_anomaly,
         Some p_anomaly_distance, Some p_fraud_score, Some p_confidence) \<Rightarrow>
          let reasons =
                (if js_gt to_number p_xgb_probability (7 / 10) then [''High ML probability''] else [])
                @ (if truthy p_kmeans_anomaly then [''Anomaly detected''] else [])
                @ (if js_gt to_number p_anomaly_distance 2 then [''Unusual pattern''] else []);
              fraudReason =
                (if truthy p_is_fraud
                 then (if join_comma reasons = [] then ''Suspicious activity detected''
                       else join_comma reasons)
                 else ''Legitimate transaction'')
          in Some \<lparr>fd_is_fraud = p_is_fraud,
                   fd_fraud_score = p_fraud_score,
                   fd_fraud_reason = fraudReason,
                   fd_confidence = p_confidence,
                   fd_xgb_probability = p_xgb_probability,
                   fd_kmeans_anomaly = p_kmeans_anomaly\<rparr>
      | _ \<Rightarrow> None)"

text \<open>
  The prediction that the handler of \<^verbatim>\<open>close\<close> extracts from the output, up to and including
  \<^verbatim>\<open>JSON.parse\<close> (the parameter \<open>json_parse\<close>, \<open>None\<close> when it throws). The line is found by
  the marker without its trailing space and split at the marker with it; when the split
  has no second piece, \<^verbatim>\<open>JSON.parse(undefined)\<close> throws.
\<close>

definition parse_output :: "(string \<Rightarrow> jsval option) \<Rightarrow> string \<Rightarrow> jsval option" where
  "parse_output json_parse output =
     (case find (\<lambda>line. includes_str line ''Sample prediction:'')
                (split_char (CHR 0x0A) (trim output)) of
        None \<Rightarrow> None
      | Some predictionLine \<Rightarrow>
          (case second (split_str ''Sample prediction: '' predictionLine) of
             None \<Rightarrow> None
           | Some predictionStr \<Rightarrow> json_parse predictionStr))"

text \<open>
  \<^verbatim>\<open>runFraudDetection\<close>, from the exit code (\<^verbatim>\<open>null\<close> when a signal ended the process) and the
  collected standard output. The promise is resolved on every path (\<open>Inr\<close>); the source
  never calls \<^verbatim>\<open>reject\<close>, and what is thrown inside the \<^verbatim>\<open>try\<close> is caught.
\<close>

definition runFraudDetection ::
  "(string \<Rightarrow> jsval option) \<Rightarrow> (jsval \<Rightarrow> rat option) \<Rightarrow> int option \<Rightarrow> string \<Rightarrow> string + detection" where
  "runFraudDetection json_parse to_number code output =
     (if code = Some 0
      then (case parse_output json_parse output of
              None \<Rightarrow> Inr fallback_prediction
            | Some prediction \<Rightarrow>
                (case read_prediction to_number prediction of
                   None \<Rightarrow> Inr fallback_prediction
                 | Some fraudDetection \<Rightarrow> Inr fraudDetection))
      else Inr fallback_prediction)"

section \<open>Ingestion (routes/transactions.js)\<close>

text \<open>A transaction as a request carries it; \<open>None\<close> is a property that is not there.\<close>

record transaction_data =
  td_transaction_id :: "string option"
  td_user_id :: "string option"
  td_amount :: "rat option"
  td_currency :: "string option"
  td_merchant_name :: "string option"
  td_merchant_category :: "string option"
  td_transaction_type :: "string option"
  td_location_lat :: "rat option"
  td_location_lng :: "rat option"
  td_device_id :: "string option"
  td_ip_address :: "string option"

text \<open>
  \<^verbatim>\<open>createTransaction\<close>: the INSERT names eleven columns, so \<^verbatim>\<open>currency\<close> stays NULL when the
  object has none; \<^verbatim>\<open>is_fraud\<close> and \<^verbatim>\<open>fraud_score\<close> take their default 0 and \<^verbatim>\<open>fraud_reason\<close> is
  NULL. Four columns are NOT NULL and \<^verbatim>\<open>transaction_id\<close> is UNIQUE. The promise resolves with
  the new \<^verbatim>\<open>id\<close> and the \<^verbatim>\<open>transaction_id\<close>.
\<close>

definition createTransaction :: "world \<Rightarrow> transaction_data \<Rightarrow> string + (world \<times> nat \<times> string)" where
  "createTransaction w transactionData =
     (case td_transaction_id transactionData of
        None \<Rightarrow> Inl ''SQLITE_CONSTRAINT: NOT NULL constraint failed: transactions.transaction_id''
      | Some tid \<Rightarrow>
     (case td_user_id transactionData of
        None \<Rightarrow> Inl ''SQLITE_CONSTRAINT: NOT NULL constraint failed: transactions.user_id''
      | Some uid \<Rightarrow>
     (case td_amount transactionData of
        None \<Rightarrow> Inl ''SQLITE_CONSTRAINT: NOT NULL constraint failed: transactions.amount''
      | Some amt \<Rightarrow>
     (case td_transaction_type transactionData of
        None \<Rightarrow> Inl ''SQLITE_CONSTRAINT: NOT NULL constraint failed: transactions.transaction_type''
      | Some ty \<Rightarrow>
          if tid \<in> set (map tr_transaction_id (transactions w))
          then Inl ''SQLITE_CONSTRAINT: UNIQUE constraint failed: transactions.transaction_id''
          else
            let lastID = Suc (length (transactions w)) in
            Inr (w\<lparr>transactions := transactions w @
                   [\<lparr>tr_id = lastID,
                     tr_transaction_id = tid,
                     tr_user_id = uid,
                     tr_amount = amt,
                     tr_currency = td_currency transactionData,
                     tr_merchant_name = td_merchant_name transactionData,
                     tr_merchant_category = td_merchant_category transactionData,
                     tr_transaction_type = ty,
                     tr_location_lat = td_location_lat transactionData,
                     tr_location_lng = td_location_lng transactionData,
                     tr_device_id = td_device_id transactionData,
                     tr_ip_address = td_ip_address transactionData,
                     tr_is_fraud = JNum 0,
                     tr_fraud_score = JNum 0,
                     tr_fraud_reason = JNull\<rparr>]\<rparr>,
                 lastID, tid)))))"

text \<open>\<^verbatim>\<open>updateTransactionFraud\<close>: an UPDATE of three nullable columns; it cannot fail.\<close>

definition updateTransactionFraud :: "world \<Rightarrow> string option \<Rightarrow> jsval \<Rightarrow> jsval \<Rightarrow> jsval \<Rightarrow> world" where
  "updateTransactionFraud w transactionId isFraud fraudScore fraudReason =
     w\<lparr>transactions :=
         map (\<lambda>row. if Some (tr_transaction_id row) = transactionId
                     then row\<lparr>tr_is_fraud := sql_bind isFraud,
                              tr_fraud_score := sql_bind fraudScore,
                              tr_fraud_reason := sql_bind fraudReason\<rparr>
                     else row)
             (transactions w)\<rparr>"

text \<open>
  The required fields that \<^verbatim>\<open>!transactionData[field]\<close> finds missing, in the order of
  \<^verbatim>\<open>requiredFields\<close>; an amount of 0 counts as missing.
\<close>

definition missing_fields :: "transaction_data \<Rightarrow> string list" where
  "missing_fields transactionData =
     (if missing (td_transaction_id transactionData) then [''transaction_id''] else [])
     @ (if missing (td_user_id transactionData) then [''user_id''] else [])
     @ (if (case td_amount transactionData of None \<Rightarrow> True | Some a \<Rightarrow> a = 0)
        then [''amount''] else [])
     @ (if missing (td_transaction_type transactionData) then [''transaction_type''] else [])"

text \<open>
  The scoring process is the parameter \<open>python\<close>: for the transaction it is started with,
  it gives the exit code and the standard output collected when it closes.
\<close>

type_synonym scoring = "transaction_data \<Rightarrow> int option \<times> string"

record transaction_created =
  tc_success :: bool
  tc_transaction_id :: string
  tc_fraud_detection :: detection
  tc_message :: string

text \<open>\<^verbatim>\<open>POST /api/transactions\<close>.\<close>

definition post_transaction ::
  "(string \<Rightarrow> jsval option) \<Rightarrow> (jsval \<Rightarrow> rat option) \<Rightarrow> scoring \<Rightarrow> world \<Rightarrow> transaction_data
     \<Rightarrow> transaction_created response \<times> world" where
  "post_transaction json_parse to_number python w transactionData =
     (case missing_fields transactionData of
        field # others \<Rightarrow> (Bad_Request (''Missing required field: '' @ field), w)
      | [] \<Rightarrow>
         (case getTransaction w (td_transaction_id transactionData) of
            Some existingTransaction \<Rightarrow>
              (Conflict ''Transaction already exists'' (td_transaction_id transactionData), w)
          | None \<Rightarrow>
             (case createTransaction w transactionData of
                Inl message \<Rightarrow> (Server_Error ''Failed to create transaction'' message, w)
              | Inr (w1, lastID, tid) \<Rightarrow>
                 (case runFraudDetection json_parse to_number
                         (fst (python transactionData)) (snd (python transactionData)) of
                    Inl message \<Rightarrow> (Server_Error ''Failed to create transaction'' message, w1)
                  | Inr fraudDetection \<Rightarrow>
                      (Created \<lparr>tc_success = True,
                                tc_transaction_id = tid,
                                tc_fraud_detection = fraudDetection,
                                tc_message = ''Transaction created and analyzed successfully''\<rparr>,
                       updateTransactionFraud w1 (td_transaction_id transactionData)
                         (fd_is_fraud fraudDetection) (fd_fraud_score fraudDetection)
                         (JStr (fd_fraud_reason fraudDetection)))))))"

section \<open>The batch routes\<close>

text \<open>
  The three batch routes share one shape: the body must hold an array (\<open>None\<close> when it
  does not); each element is handled inside its own \<^verbatim>\<open>try\<close>, and ends as one entry of
  \<^verbatim>\<open>results\<close> or one entry of \<^verbatim>\<open>errors\<close>. The loop is a recursion over the array that carries
  both lists and the state. It returns \<open>Inl\<close> when an exception leaves the loop, which
  then reaches the \<^verbatim>\<open>catch\<close> of the whole handler; the state reached is kept.

  In the answer the object literal names \<^verbatim>\<open>errors\<close> twice, first with the length and then
  with the array; the later property wins, so \<^verbatim>\<open>errors\<close> is the array.
\<close>

record batch_error =
  be_transaction_id :: "string option"
  be_error :: string

record 'r batch_body =
  bb_success :: bool
  bb_processed :: nat
  bb_results :: "'r list"
  bb_errors :: "batch_error list"
  bb_message :: string

text \<open>
  The message of the TypeError that reading \<^verbatim>\<open>transaction_id\<close> of a \<^verbatim>\<open>null\<close> element throws.
\<close>

definition null_item_error :: string where
  "null_item_error = ''Cannot read properties of null (reading 'transaction_id')''"

text \<open>
  \<^verbatim>\<open>POST /api/blockchain/batch-record\<close>. An element is a transaction identifier; \<open>None\<close> is
  a \<^verbatim>\<open>null\<close> element, which no stored identifier equals.
\<close>

record record_result =
  rr_transaction_id :: "string option"
  rr_blockchain_record :: record_data
  rr_status :: string

fun batch_record_loop ::
  "integration \<Rightarrow> world \<Rightarrow> record_result list \<Rightarrow> batch_error list \<Rightarrow> string option list
     \<Rightarrow> (string + record_result list \<times> batch_error list) \<times> world" where
  "batch_record_loop cardano w results errors [] = (Inr (results, errors), w)"
| "batch_record_loop cardano w results errors (transactionId # rest) =
     (case getTransaction w transactionId of
        None \<Rightarrow>
          batch_record_loop cardano w results
            (errors @ [\<lparr>be_transaction_id = transactionId, be_error = ''Transaction not found''\<rparr>])
            rest
      | Some transaction \<Rightarrow>
          (case call_integration cardano w transaction (stored_prediction transaction) of
             (Inl message, w1) \<Rightarrow>
               batch_record_loop cardano w1 results
                 (errors @ [\<lparr>be_transaction_id = transactionId, be_error = message\<rparr>]) rest
           | (Inr blockchainRecord, w1) \<Rightarrow>
               (case createBlockchainRecord w1 blockchainRecord of
                  Inl message \<Rightarrow>
                    batch_record_loop cardano w1 results
                      (errors @ [\<lparr>be_transaction_id = transactionId, be_error = message\<rparr>]) rest
                | Inr (w2, lastID) \<Rightarrow>
                    batch_record_loop cardano w2
                      (results @ [\<lparr>rr_transaction_id = transactionId,
                                   rr_blockchain_record = blockchainRecord,
                                   rr_status = ''success''\<rparr>])
                      errors rest)))"

definition post_batch_record ::
  "integration \<Rightarrow> world \<Rightarrow> string option list option \<Rightarrow> record_result batch_body response \<times> world" where
  "post_batch_record cardano w transaction_ids =
     (case transaction_ids of
        None \<Rightarrow> (Bad_Request ''transaction_ids must be an array'', w)
      | Some ids \<Rightarrow>
         (case batch_record_loop cardano w [] [] ids of
            (Inl message, w') \<Rightarrow> (Server_Error ''Failed to batch record transactions'' message, w')
          | (Inr (results, errors), w') \<Rightarrow>
              (Created \<lparr>bb_success = True,
                        bb_processed = length results,
                        bb_results = results,
                        bb_errors = errors,
                        bb_message = ''Batch recording completed: '' @ string_of_nat (length results)
                                     @ '' successful, '' @ string_of_nat (length errors)
                                     @ '' errors''\<rparr>,
               w')))"

text \<open>
  \<^verbatim>\<open>POST /api/fraud/alerts/batch\<close>. An element is an alert object, or \<^verbatim>\<open>null\<close> (\<open>None\<close>). On
  a \<^verbatim>\<open>null\<close> element the first statement of the \<^verbatim>\<open>try\<close> throws a TypeError, and the \<^verbatim>\<open>catch\<close>
  of the element reads \<^verbatim>\<open>alertData.transaction_id\<close> again: the second TypeError leaves the
  loop.
\<close>

record alert_result =
  alr_alert_id :: nat
  alr_transaction_id :: "string option"
  alr_blockchain_record :: record_data
  alr_status :: string

fun alerts_batch_loop ::
  "integration \<Rightarrow> world \<Rightarrow> alert_result list \<Rightarrow> batch_error list \<Rightarrow> alert_data option list
     \<Rightarrow> (string + alert_result list \<times> batch_error list) \<times> world" where
  "alerts_batch_loop cardano w results errors [] = (Inr (results, errors), w)"
| "alerts_batch_loop cardano w results errors (None # rest) = (Inl null_item_error, w)"
| "alerts_batch_loop cardano w results errors (Some alertData # rest) =
     (case getTransaction w (ad_transaction_id alertData) of
        None \<Rightarrow>
          alerts_batch_loop cardano w results
            (errors @ [\<lparr>be_transaction_id = ad_transaction_id alertData,
                         be_error = ''Transaction not found''\<rparr>])
            rest
      | Some transaction \<Rightarrow>
          (case createFraudAlert w alertData of
             Inl message \<Rightarrow>
               alerts_batch_loop cardano w results
                 (errors @ [\<lparr>be_transaction_id = ad_transaction_id alertData,
                              be_error = message\<rparr>]) rest
           | Inr (w1, alert_id) \<Rightarrow>
               let fraudPrediction =
                     \<lparr>fp_is_fraud = JBool True,
                      fp_fraud_score = (case ad_confidence_score alertData of
                                          None \<Rightarrow> JUndefined | Some c \<Rightarrow> JNum c),
                      fp_confidence = (case ad_confidence_score alertData of
                                          None \<Rightarrow> JUndefined | Some c \<Rightarrow> JNum c)\<rparr>
               in
               (case call_integration cardano w1 transaction fraudPrediction of
                  (Inl message, w2) \<Rightarrow>
                    alerts_batch_loop cardano w2 results
                      (errors @ [\<lparr>be_transaction_id = ad_transaction_id alertData,
                                   be_error = message\<rparr>]) rest
                | (Inr blockchainRecord, w2) \<Rightarrow>
                    let w3 = updateFraudAlertWithBlockchain w2 alert_id blockchainRecord in
                    (case createBlockchainRecord w3 blockchainRecord of
                       Inl message \<Rightarrow>
                         alerts_batch_loop cardano w3 results
                           (errors @ [\<lparr>be_transaction_id = ad_transaction_id alertData,
                                        be_error = message\<rparr>]) rest
                     | Inr (w4, lastID) \<Rightarrow>
                         alerts_batch_loop cardano w4
                           (results @ [\<lparr>alr_alert_id = alert_id,
                                        alr_transaction_id = ad_transaction_id alertData,
                                        alr_blockchain_record = blockchainRecord,
                                        alr_status = ''success''\<rparr>])
                           errors rest))))"

definition post_alerts_batch ::
  "integration \<Rightarrow> world \<Rightarrow> alert_data option list option \<Rightarrow> alert_result batch_body response \<times> world" where
  "post_alerts_batch cardano w alerts =
     (case alerts of
        None \<Rightarrow> (Bad_Request ''Alerts must be an array'', w)
      | Some items \<Rightarrow>
         (case alerts_batch_loop cardano w [] [] items of
            (Inl message, w') \<Rightarrow> (Server_Error ''Failed to process batch fraud alerts'' message, w')
          | (Inr (results, errors), w') \<Rightarrow>
              (Created \<lparr>bb_success = True,
                        bb_processed = length results,
                        bb_results = results,
                        bb_errors = errors,
                        bb_message = ''Batch processing completed: '' @ string_of_nat (length results)
                                     @ '' successful, '' @ string_of_nat (length errors)
                                     @ '' errors''\<rparr>,
               w')))"

text \<open>
  \<^verbatim>\<open>POST /api/transactions/batch\<close>. On a \<^verbatim>\<open>null\<close> element the filter over the required fields
  throws a TypeError and the \<^verbatim>\<open>catch\<close> of the element throws the second one, as above.
\<close>

record transaction_result =
  txr_transaction_id :: string
  txr_fraud_detection :: detection
  txr_status :: string

fun transactions_batch_loop ::
  "(string \<Rightarrow> jsval option) \<Rightarrow> (jsval \<Rightarrow> rat option) \<Rightarrow> scoring \<Rightarrow> world
     \<Rightarrow> transaction_result list \<Rightarrow> batch_error list \<Rightarrow> transaction_data option list
     \<Rightarrow> (string + transaction_result list \<times> batch_error list) \<times> world" where
  "transactions_batch_loop json_parse to_number python w results errors [] =
     (Inr (results, errors), w)"
| "transactions_batch_loop json_parse to_number python w results errors (None # rest) =
     (Inl null_item_error, w)"
| "transactions_batch_loop json_parse to_number python w results errors (Some transactionData # rest) =
     (if missing_fields transactionData \<noteq> []
      then transactions_batch_loop json_parse to_number python w results
             (errors @ [\<lparr>be_transaction_id = td_transaction_id transactionData,
                          be_error = ''Missing required fields: ''
                                     @ join_comma (missing_fields transactionData)\<rparr>])
             rest
      else
        case getTransaction w (td_transaction_id transactionData) of
          Some existingTransaction \<Rightarrow>
            transactions_batch_loop json_parse to_number python w results
              (errors @ [\<lparr>be_transaction_id = td_transaction_id transactionData,
                           be_error = ''Transaction already exists''\<rparr>])
              rest
        | None \<Rightarrow>
            (case createTransaction w transactionData of
               Inl message \<Rightarrow>
                 transactions_batch_loop json_parse to_number python w results
                   (errors @ [\<lparr>be_transaction_id = td_transaction_id transactionData,
                                be_error = message\<rparr>])
                   rest
             | Inr (w1, lastID, tid) \<Rightarrow>
                 (case runFraudDetection json_parse to_number
                         (fst (python transactionData)) (snd (python transactionData)) of
                    Inl message \<Rightarrow>
                      transactions_batch_loop json_parse to_number python w1 results
                        (errors @ [\<lparr>be_transaction_id = td_transaction_id transactionData,
                                     be_error = message\<rparr>])
                        rest
                  | Inr fraudDetection \<Rightarrow>
                      transactions_batch_loop json_parse to_number python
                        (updateTransactionFraud w1 (td_transaction_id transactionData)
                           (fd_is_fraud fraudDetection) (fd_fraud_score fraudDetection)
                           (JStr (fd_fraud_reason fraudDetection)))
                        (results @ [\<lparr>txr_transaction_id = tid,
                                     txr_fraud_detection = fraudDetection,
                                     txr_status = ''success''\<rparr>])
                        errors rest)))"

definition post_transactions_batch ::
  "(string \<Rightarrow> jsval option) \<Rightarrow> (jsval \<Rightarrow> rat option) \<Rightarrow> scoring \<Rightarrow> world
     \<Rightarrow> transaction_data option list option \<Rightarrow> transaction_result batch_body response \<times> world" where
  "post_transactions_batch json_parse to_number python w body_transactions =
     (case body_transactions of
        None \<Rightarrow> (Bad_Request ''Transactions must be an array'', w)
      | Some items \<Rightarrow>
         (case transactions_batch_loop json_parse to_number python w [] [] items of
            (Inl message, w') \<Rightarrow> (Server_Error ''Failed to process batch transactions'' message, w')
          | (Inr (results, errors), w') \<Rightarrow>
              (Created \<lparr>bb_success = True,
                        bb_processed = length results,
                        bb_results = results,
                        bb_errors = errors,
                        bb_message = ''Batch processing completed: '' @ string_of_nat (length results)
                                     @ '' successful, '' @ string_of_nat (length errors)
                                     @ '' errors''\<rparr>,
               w')))"

section \<open>Auxiliary notions\<close>

text \<open>
  For stating what a loop has produced: the transaction identifiers of the entries of both
  lists together, as a multiset, when the loop ran to its end, and \<open>None\<close> when an
  exception left it. \<open>key\<close> reads the identifier of a result entry.
\<close>

definition batch_reported ::
  "('r \<Rightarrow> string option) \<Rightarrow> (string + 'r list \<times> batch_error list) \<Rightarrow> string option multiset option" where
  "batch_reported key outcome =
     (case outcome of
        Inl message \<Rightarrow> None
      | Inr (results, errors) \<Rightarrow>
          Some (mset (map key results) + mset (map be_transaction_id errors)))"

text \<open>
  The states that the system reaches from the empty tables through the operations above,
  for any behaviour of the integration, of the scoring process and of \<^verbatim>\<open>JSON.parse\<close>.
\<close>

inductive reachable :: "world \<Rightarrow> bool" where
  start: "reachable empty_world"
| seeded: "reachable w \<Longrightarrow> reachable (seed_blockchain_records w rs)"
| recorded: "reachable w \<Longrightarrow> reachable (snd (post_record cardano w tid))"
| alerted: "reachable w \<Longrightarrow> reachable (snd (post_alert cardano w body))"
| ingested: "reachable w \<Longrightarrow> reachable (snd (post_transaction json_parse to_number python w d))"
| batch_record: "reachable w \<Longrightarrow> reachable (snd (post_batch_record cardano w ids))"
| alerts_batch: "reachable w \<Longrightarrow> reachable (snd (post_alerts_batch cardano w alerts))"
| transactions_batch:
    "reachable w \<Longrightarrow> reachable (snd (post_transactions_batch json_parse to_number python w ts))"

section \<open>Concrete inputs\<close>

text \<open>Two demo transactions: a daytime one of 1500, and a small one at three in the night.\<close>

definition demo_tx :: demo_transaction where
  "demo_tx =
     \<lparr>dt_transaction_id = ''TX1'', dt_user_id = ''USER0001'', dt_amount = 1500,
      dt_currency = ''USD'', dt_merchant_name = ''Airlines'', dt_merchant_category = ''travel'',
      dt_transaction_type = ''online'', dt_location_lat = 40, dt_location_lng = -74,
      dt_device_id = ''DEV1'', dt_ip_address = ''192.168.1.100'',
      dt_timestamp = ''2025-01-21T12:34:00.000Z'', dt_hour = 14, dt_day_of_week = 2,
      dt_user_age = 30, dt_account_age_days = 400, dt_previous_fraud_count = 0,
      dt_device_type = ''mobile'', dt_is_weekend = 0, dt_is_holiday = 0\<rparr>"

definition demo_night_tx :: demo_transaction where
  "demo_night_tx = demo_tx\<lparr>dt_transaction_id := ''TX2'', dt_amount := 300, dt_hour := 3,
                            dt_merchant_name := ''Walmart'', dt_merchant_category := ''grocery''\<rparr>"

definition demo_draws :: "nat \<Rightarrow> record_draws" where
  "demo_draws k =
     \<lparr>hash_hex = ''ab'', nft_draw = 1 / 2, nft_hex_upper = ''FF'', height_draw = 1 / 2,
      status_draw = 1 / 2\<rparr>"

definition demo_confidence_draws :: "nat \<Rightarrow> rat" where
  "demo_confidence_draws k = 99 / 100"

text \<open>A record as the demo generator builds it: a block height and the status \<^verbatim>\<open>'confirmed'\<close>.\<close>

definition demo_confirmed_record :: record_data where
  "demo_confirmed_record =
     \<lparr>rd_transaction_id = Some ''TX1'', rd_cardano_tx_hash = Some ''0xabc'', rd_nft_id = None,
      rd_metadata = None, rd_block_height = Some 1500000,
      rd_confirmation_status = Some ''confirmed'', rd_created_at = None\<rparr>"

text \<open>The table after the record above has been stored.\<close>

definition demo_stored_world :: world where
  "demo_stored_world =
     empty_world\<lparr>blockchain_records :=
        [\<lparr>br_id = 1, br_transaction_id = ''TX1'', br_cardano_tx_hash = ''0xabc'',
          br_nft_id = None, br_metadata = None, br_block_height = Some 1500000,
          br_confirmation_status = ''pending''\<rparr>]\<rparr>"

text \<open>
  A store with two transactions: TX1 scored as fraud (0.85), TX2 scored as legitimate.
\<close>

definition demo_row :: transaction_row where
  "demo_row =
     \<lparr>tr_id = 1, tr_transaction_id = ''TX1'', tr_user_id = ''USER0001'', tr_amount = 5000,
      tr_currency = Some ''USD'', tr_merchant_name = Some ''Online Store'',
      tr_merchant_category = Some ''online_shopping'', tr_transaction_type = ''online'',
      tr_location_lat = None, tr_location_lng = None, tr_device_id = None,
      tr_ip_address = None, tr_is_fraud = JNum 1, tr_fraud_score = JNum (85 / 100),
      tr_fraud_reason = JStr ''High ML probability''\<rparr>"

definition demo_legit_row :: transaction_row where
  "demo_legit_row =
     demo_row\<lparr>tr_id := 2, tr_transaction_id := ''TX2'', tr_amount := 40,
              tr_is_fraud := JNum 0, tr_fraud_score := JNum (1 / 10),
              tr_fraud_reason := JStr ''Legitimate transaction''\<rparr>"

definition demo_world :: world where
  "demo_world = empty_world\<lparr>transactions := [demo_row, demo_legit_row]\<rparr>"

text \<open>
  Two behaviours of the integration. The first accepts every submission and answers with
  a record whose hash differs from call to call, as a ledger does; the second is a ledger
  that cannot be reached.
\<close>

definition demo_ledger :: integration where
  "demo_ledger n transaction fraudPrediction =
     Inr \<lparr>rd_transaction_id = Some (tr_transaction_id transaction),
          rd_cardano_tx_hash = Some (''0x'' @ replicate (Suc n) (CHR ''a'')),
          rd_nft_id = None,
          rd_metadata = None,
          rd_block_height = None,
          rd_confirmation_status = Some ''pending'',
          rd_created_at = None\<rparr>"

definition unavailable_ledger :: integration where
  "unavailable_ledger n transaction fraudPrediction = Inl ''LedgerUnavailable''"

text \<open>
  Two more behaviours of the integration: one that derives the hash from nothing but a
  constant, so that every submission gets the same hash, and one that answers an
  unreachable ledger with a pending record that has no hash yet.
\<close>

definition fixed_ledger :: integration where
  "fixed_ledger n transaction fraudPrediction =
     Inr \<lparr>rd_transaction_id = Some (tr_transaction_id transaction),
          rd_cardano_tx_hash = Some ''0xa'',
          rd_nft_id = None,
          rd_metadata = None,
          rd_block_height = None,
          rd_confirmation_status = Some ''pending'',
          rd_created_at = None\<rparr>"

definition queueing_ledger :: integration where
  "queueing_ledger n transaction fraudPrediction =
     Inr \<lparr>rd_transaction_id = Some (tr_transaction_id transaction),
          rd_cardano_tx_hash = None,
          rd_nft_id = None,
          rd_metadata = None,
          rd_block_height = None,
          rd_confirmation_status = Some ''pending'',
          rd_created_at = None\<rparr>"

text \<open>
  An integration with an eligibility check of its own: it refuses a prediction whose
  \<^verbatim>\<open>is_fraud\<close> is falsy and accepts the others as the first ledger does.
\<close>

definition gating_ledger :: integration where
  "gating_ledger n transaction fraudPrediction =
     (if truthy (fp_is_fraud fraudPrediction) then demo_ledger n transaction fraudPrediction
      else Inl ''NotEligible'')"

text \<open>The body of the alert request of test\_system.js, with the severity set to low.\<close>

definition demo_alert_request :: alert_request where
  "demo_alert_request =
     \<lparr>ar_transaction_id = Some ''TX1'', ar_alert_type = Some ''FRAUD_ALERT'',
      ar_severity = Some ''low'', ar_confidence_score = Some (85 / 100),
      ar_ml_model_used = Some ''XGBoost + KMeans'', ar_features = JUndefined\<rparr>"

text \<open>The store after TX1 has been recorded once through the record route.\<close>

definition demo_world_recorded :: world where
  "demo_world_recorded = snd (post_record demo_ledger demo_world (Some ''TX1''))"

text \<open>
  Inputs for the scoring bridge: a \<^verbatim>\<open>JSON.parse\<close> and a conversion that accept nothing, a
  scoring process that exits with code 1, and a new transaction.
\<close>

definition demo_json_parse :: "string \<Rightarrow> jsval option" where
  "demo_json_parse s = None"

definition demo_to_number :: "jsval \<Rightarrow> rat option" where
  "demo_to_number v = None"

definition demo_failing_python :: scoring where
  "demo_failing_python transactionData = (Some 1, [])"

definition demo_new_transaction :: transaction_data where
  "demo_new_transaction =
     \<lparr>td_transaction_id = Some ''TX3'', td_user_id = Some ''USER0003'', td_amount = Some 1500,
      td_currency = Some ''USD'', td_merchant_name = Some ''Suspicious Online Store'',
      td_merchant_category = Some ''online_shopping'', td_transaction_type = Some ''online'',
      td_location_lat = None, td_location_lng = None, td_device_id = Some ''TEST_DEVICE_001'',
      td_ip_address = Some ''192.168.1.100''\<rparr>"

text \<open>An alert for TX1 as an element of a batch.\<close>

definition demo_batch_alert :: alert_data where
  "demo_batch_alert =
     \<lparr>ad_transaction_id = Some ''TX1'', ad_alert_type = Some ''FRAUD_ALERT'',
      ad_severity = Some ''high'', ad_confidence_score = Some (85 / 100),
      ad_ml_model_used = Some ''XGBoost + KMeans'', ad_features = None,
      ad_cardano_tx_hash = None, ad_cardano_nft_id = None, ad_created_at = None\<rparr>"

text \<open>
  A ledger that cannot be reached at the first submission and accepts the later ones, and
  an alert for a transaction that is not stored.
\<close>

definition flaky_ledger :: integration where
  "flaky_ledger n transaction fraudPrediction =
     (if n = 0 then Inl ''LedgerUnavailable'' else demo_ledger n transaction fraudPrediction)"

definition demo_unknown_alert :: alert_data where
  "demo_unknown_alert = demo_batch_alert\<lparr>ad_transaction_id := Some ''TX9''\<rparr>"

section \<open>Properties of record creation\<close>

lemma createBlockchainRecord_Inr:
  assumes "createBlockchainRecord w r = Inr (w', i)"
  shows "\<exists>tid h. rd_transaction_id r = Some tid \<and> rd_cardano_tx_hash r = Some h
           \<and> h \<notin> set (stored_hashes w)
           \<and> i = Suc (length (blockchain_records w))
           \<and> w' = w\<lparr>blockchain_records := blockchain_records w @
                      [\<lparr>br_id = i, br_transaction_id = tid, br_cardano_tx_hash = h,
                        br_nft_id = rd_nft_id r, br_metadata = rd_metadata r,
                        br_block_height = rd_block_height r,
                        br_confirmation_status = ''pending''\<rparr>]\<rparr>"
  using assms
  by (auto simp: createBlockchainRecord_def stored_hashes_def Let_def
           split: option.splits if_splits)

lemma createBlockchainRecord_ignores_status:
  "createBlockchainRecord w (r\<lparr>rd_confirmation_status := s\<rparr>) = createBlockchainRecord w r"
  by (simp add: createBlockchainRecord_def split: option.splits)

lemma createBlockchainRecord_distinct:
  assumes "distinct (stored_hashes w)" and "createBlockchainRecord w r = Inr (w', i)"
  shows "distinct (stored_hashes w')"
proof -
  from createBlockchainRecord_Inr [OF assms(2)] obtain tid h where
    h: "h \<notin> set (stored_hashes w)" and
    w': "stored_hashes w' = stored_hashes w @ [h]"
    by (auto simp: stored_hashes_def)
  from assms(1) h w' show ?thesis by simp
qed

lemma seed_blockchain_records_distinct:
  "distinct (stored_hashes w) \<Longrightarrow> distinct (stored_hashes (seed_blockchain_records w rs))"
proof (induction rs arbitrary: w)
  case Nil
  then show ?case by simp
next
  case (Cons r rs)
  show ?case
  proof (cases "createBlockchainRecord w r")
    case (Inl err)
    with Cons show ?thesis by simp
  next
    case (Inr p)
    obtain w' i where p: "p = (w', i)" by (cases p)
    from Cons.prems Inr p have "distinct (stored_hashes w')"
      using createBlockchainRecord_distinct by blast
    with Cons.IH Inr p show ?thesis by simp
  qed
qed

lemma createBlockchainRecord_duplicate:
  assumes "rd_cardano_tx_hash r = Some h" and "h \<in> set (stored_hashes w)"
  shows "\<exists>err. createBlockchainRecord w r = Inl err"
  using assms
  by (auto simp: createBlockchainRecord_def stored_hashes_def split: option.splits)

text \<open>
  Claim C6. A ledger record is created in status \<^verbatim>\<open>'pending'\<close>: whenever
  \<^verbatim>\<open>createBlockchainRecord\<close> succeeds, the table has grown by exactly one row, that row's
  confirmation status is \<^verbatim>\<open>'pending'\<close>, and a \<^verbatim>\<open>confirmation_status\<close> carried by the caller's
  object (any value \<open>s\<close>, such as \<^verbatim>\<open>'confirmed'\<close>) has no effect on the outcome.
\<close>

theorem C6_created_record_is_pending:
  assumes "createBlockchainRecord w r = Inr (w', i)"
  shows "blockchain_records w' = blockchain_records w @ [last (blockchain_records w')]
       \<and> br_confirmation_status (last (blockchain_records w')) = ''pending''
       \<and> createBlockchainRecord w (r\<lparr>rd_confirmation_status := s\<rparr>) = Inr (w', i)"
proof -
  from createBlockchainRecord_Inr [OF assms] obtain row where
    "blockchain_records w' = blockchain_records w @ [row]"
    "br_confirmation_status row = ''pending''"
    by auto
  then show ?thesis
    using assms by (simp add: createBlockchainRecord_ignores_status)
qed

theorem C6_created_record_is_pending_witness:
  "createBlockchainRecord empty_world demo_confirmed_record
     = Inr (empty_world\<lparr>blockchain_records :=
              [\<lparr>br_id = 1, br_transaction_id = ''TX1'', br_cardano_tx_hash = ''0xabc'',
                br_nft_id = None, br_metadata = None, br_block_height = Some 1500000,
                br_confirmation_status = ''pending''\<rparr>]\<rparr>, 1)
   \<and> createBlockchainRecord empty_world (demo_confirmed_record\<lparr>rd_confirmation_status := Some ''failed''\<rparr>)
     = Inr (empty_world\<lparr>blockchain_records :=
              [\<lparr>br_id = 1, br_transaction_id = ''TX1'', br_cardano_tx_hash = ''0xabc'',
                br_nft_id = None, br_metadata = None, br_block_height = Some 1500000,
                br_confirmation_status = ''pending''\<rparr>]\<rparr>, 1)"
proof -
  have run: "createBlockchainRecord empty_world demo_confirmed_record
     = Inr (empty_world\<lparr>blockchain_records :=
              [\<lparr>br_id = 1, br_transaction_id = ''TX1'', br_cardano_tx_hash = ''0xabc'',
                br_nft_id = None, br_metadata = None, br_block_height = Some 1500000,
                br_confirmation_status = ''pending''\<rparr>]\<rparr>, 1)"
    by (simp add: createBlockchainRecord_def demo_confirmed_record_def empty_world_def)
  from C6_created_record_is_pending [OF run, of "Some ''failed''"] run show ?thesis
    by simp
qed

lemma in_generateBlockchainRecords:
  assumes "r \<in> set (generateBlockchainRecords now draws txs)"
  shows "\<exists>k t. t \<in> set txs \<and> dt_amount t > 1000 \<and> r = demo_record now (draws k) t"
proof -
  let ?sel = "filter (\<lambda>t. dt_amount t > 1000) txs"
  from assms obtain k where k: "k < length ?sel" and r: "r = demo_record now (draws k) (?sel ! k)"
    by (auto simp: generateBlockchainRecords_def in_set_enumerate_eq)
  from k have "?sel ! k \<in> set ?sel" by (rule nth_mem)
  then have "?sel ! k \<in> set txs \<and> dt_amount (?sel ! k) > 1000" by simp
  with r show ?thesis by blast
qed

lemma in_generateFraudAlerts:
  assumes "a \<in> set (generateFraudAlerts now draws txs)"
  shows "\<exists>k t. t \<in> set txs \<and> suspicious t \<and> a = demo_alert now (draws k) t"
proof -
  let ?sel = "filter suspicious txs"
  from assms obtain k where k: "k < length ?sel" and a: "a = demo_alert now (draws k) (?sel ! k)"
    by (auto simp: generateFraudAlerts_def in_set_enumerate_eq)
  from k have "?sel ! k \<in> set ?sel" by (rule nth_mem)
  then have "?sel ! k \<in> set txs \<and> suspicious (?sel ! k)" by simp
  with a show ?thesis by blast
qed

lemma stored_hashes_updates [simp]:
  "stored_hashes (w\<lparr>ledger_calls := c\<rparr>) = stored_hashes w"
  "stored_hashes (w\<lparr>fraud_alerts := a\<rparr>) = stored_hashes w"
  "stored_hashes (w\<lparr>transactions := t\<rparr>) = stored_hashes w"
  by (simp_all add: stored_hashes_def)

lemma createFraudAlert_hashes:
  "createFraudAlert w a = Inr (w', i) \<Longrightarrow> stored_hashes w' = stored_hashes w"
  by (auto simp: createFraudAlert_def Let_def split: option.splits)

lemma createTransaction_hashes:
  "createTransaction w d = Inr (w', i, tid) \<Longrightarrow> stored_hashes w' = stored_hashes w"
  by (auto simp: createTransaction_def Let_def split: option.splits if_splits)

lemma post_record_distinct:
  "distinct (stored_hashes w) \<Longrightarrow> distinct (stored_hashes (snd (post_record cardano w tid)))"
  by (auto simp: post_record_def call_integration_def Let_def
      split: option.splits sum.splits prod.splits
      dest!: createBlockchainRecord_distinct [rotated])

lemma post_alert_distinct:
  "distinct (stored_hashes w) \<Longrightarrow> distinct (stored_hashes (snd (post_alert cardano w body)))"
  by (auto simp: post_alert_def call_integration_def Let_def updateFraudAlertWithBlockchain_def
      split: option.splits sum.splits prod.splits
      dest!: createBlockchainRecord_distinct [rotated] createFraudAlert_hashes)

lemma post_transaction_distinct:
  "distinct (stored_hashes w) \<Longrightarrow>
     distinct (stored_hashes (snd (post_transaction json_parse to_number python w d)))"
  by (auto simp: post_transaction_def updateTransactionFraud_def
      split: option.splits sum.splits prod.splits list.splits
      dest!: createTransaction_hashes)

lemma batch_record_loop_distinct:
  "distinct (stored_hashes w) \<Longrightarrow>
     distinct (stored_hashes (snd (batch_record_loop cardano w results errors ids)))"
proof (induction ids arbitrary: w results errors)
  case Nil
  then show ?case by simp
next
  case (Cons transactionId rest)
  then show ?case
    by (auto simp: call_integration_def Let_def split: option.splits sum.splits prod.splits
        dest!: createBlockchainRecord_distinct [rotated])
qed

lemma alerts_batch_loop_distinct:
  "distinct (stored_hashes w) \<Longrightarrow>
     distinct (stored_hashes (snd (alerts_batch_loop cardano w results errors items)))"
proof (induction items arbitrary: w results errors)
  case Nil
  then show ?case by simp
next
  case (Cons x items)
  then show ?case
    by (cases x)
       (auto simp: call_integration_def Let_def updateFraudAlertWithBlockchain_def
        split: option.splits sum.splits prod.splits
        dest!: createBlockchainRecord_distinct [rotated] createFraudAlert_hashes)
qed

lemma transactions_batch_loop_distinct:
  "distinct (stored_hashes w) \<Longrightarrow>
     distinct (stored_hashes (snd (transactions_batch_loop json_parse to_number python w
                                      results errors items)))"
proof (induction items arbitrary: w results errors)
  case Nil
  then show ?case by simp
next
  case (Cons x items)
  then show ?case
    by (cases x)
       (auto simp: Let_def updateTransactionFraud_def
        split: option.splits sum.splits prod.splits
        dest!: createTransaction_hashes)
qed

lemma snd_post_batch_record:
  "snd (post_batch_record cardano w ids) =
     (case ids of None \<Rightarrow> w | Some xs \<Rightarrow> snd (batch_record_loop cardano w [] [] xs))"
  by (simp add: post_batch_record_def split: option.splits sum.splits prod.splits)

lemma snd_post_alerts_batch:
  "snd (post_alerts_batch cardano w alerts) =
     (case alerts of None \<Rightarrow> w | Some xs \<Rightarrow> snd (alerts_batch_loop cardano w [] [] xs))"
  by (simp add: post_alerts_batch_def split: option.splits sum.splits prod.splits)

lemma snd_post_transactions_batch:
  "snd (post_transactions_batch json_parse to_number python w ts) =
     (case ts of None \<Rightarrow> w
      | Some xs \<Rightarrow> snd (transactions_batch_loop json_parse to_number python w [] [] xs))"
  by (simp add: post_transactions_batch_def split: option.splits sum.splits prod.splits)

lemma reachable_distinct: "reachable w \<Longrightarrow> distinct (stored_hashes w)"
proof (induction rule: reachable.induct)
  case start
  then show ?case by (simp add: stored_hashes_def empty_world_def)
next
  case (seeded w rs)
  then show ?case by (simp add: seed_blockchain_records_distinct)
next
  case (recorded w cardano tid)
  then show ?case by (simp add: post_record_distinct)
next
  case (alerted w cardano body)
  then show ?case by (simp add: post_alert_distinct)
next
  case (ingested w json_parse to_number python d)
  then show ?case by (simp add: post_transaction_distinct)
next
  case (batch_record w cardano ids)
  then show ?case
    by (simp add: snd_post_batch_record batch_record_loop_distinct split: option.splits)
next
  case (alerts_batch w cardano alerts)
  then show ?case
    by (simp add: snd_post_alerts_batch alerts_batch_loop_distinct split: option.splits)
next
  case (transactions_batch w json_parse to_number python ts)
  then show ?case
    by (simp add: snd_post_transactions_batch transactions_batch_loop_distinct
        split: option.splits)
qed

text \<open>
  Claim C7. The ledger transaction hash is unique across the stored records. In every
  state that the system reaches from the empty tables, through any sequence of seeding,
  route calls and batches, the stored hashes are pairwise distinct; one insertion keeps
  them distinct; and an insertion whose hash a stored row already has is rejected and
  leaves the state as it was. The column is NOT NULL as well, so every stored row has a
  hash.
\<close>

theorem C7_ledger_hash_unique:
  "(reachable w0 \<longrightarrow> distinct (stored_hashes w0))
   \<and> (distinct (stored_hashes w) \<longrightarrow>
        (case createBlockchainRecord w r of
           Inl err \<Rightarrow> True
         | Inr (w', lastID) \<Rightarrow> distinct (stored_hashes w')))
   \<and> (rd_cardano_tx_hash r = Some h \<and> h \<in> set (stored_hashes w) \<longrightarrow>
        isl (createBlockchainRecord w r) \<and> seed_blockchain_records w [r] = w)"
proof -
  have step: "case createBlockchainRecord w r of
           Inl err \<Rightarrow> True
         | Inr (w', lastID) \<Rightarrow> distinct (stored_hashes w')"
    if d: "distinct (stored_hashes w)"
  proof (cases "createBlockchainRecord w r")
    case (Inl err)
    then show ?thesis by simp
  next
    case (Inr p)
    obtain w' i where "p = (w', i)" by (cases p)
    with Inr d createBlockchainRecord_distinct show ?thesis by auto
  qed
  have dup: "isl (createBlockchainRecord w r) \<and> seed_blockchain_records w [r] = w"
    if "rd_cardano_tx_hash r = Some h \<and> h \<in> set (stored_hashes w)"
  proof -
    from that obtain err where "createBlockchainRecord w r = Inl err"
      using createBlockchainRecord_duplicate by blast
    then show ?thesis by simp
  qed
  from reachable_distinct [of w0] step dup show ?thesis by blast
qed

theorem C7_ledger_hash_unique_witness:
  "reachable (seed_blockchain_records empty_world [demo_confirmed_record, demo_confirmed_record])
   \<and> stored_hashes (seed_blockchain_records empty_world [demo_confirmed_record, demo_confirmed_record])
     = [''0xabc'']
   \<and> distinct (stored_hashes demo_stored_world)
   \<and> rd_cardano_tx_hash demo_confirmed_record = Some ''0xabc''
   \<and> ''0xabc'' \<in> set (stored_hashes demo_stored_world)
   \<and> isl (createBlockchainRecord demo_stored_world demo_confirmed_record)
   \<and> seed_blockchain_records demo_stored_world [demo_confirmed_record] = demo_stored_world"
proof -
  have r: "reachable (seed_blockchain_records empty_world [demo_confirmed_record, demo_confirmed_record])"
    by (rule reachable.seeded) (rule reachable.start)
  have a: "stored_hashes (seed_blockchain_records empty_world [demo_confirmed_record, demo_confirmed_record])
     = [''0xabc'']"
    by (simp add: createBlockchainRecord_def demo_confirmed_record_def empty_world_def
        stored_hashes_def)
  have b: "rd_cardano_tx_hash demo_confirmed_record = Some ''0xabc''
     \<and> ''0xabc'' \<in> set (stored_hashes demo_stored_world)"
    by (simp add: demo_confirmed_record_def demo_stored_world_def stored_hashes_def empty_world_def)
  have c: "distinct (stored_hashes demo_stored_world)"
    by (simp add: demo_stored_world_def stored_hashes_def empty_world_def)
  from C7_ledger_hash_unique
      [of "seed_blockchain_records empty_world [demo_confirmed_record, demo_confirmed_record]"
        demo_stored_world demo_confirmed_record "''0xabc''"] r a b c
  show ?thesis by simp
qed

text \<open>
  Claim C9 says that no stored record is pending with a block height. Storing a record
  that carries the block height 1500000 gives exactly such a row.
\<close>

theorem C9_counterexample:
  "createBlockchainRecord empty_world demo_confirmed_record = Inr (demo_stored_world, 1)
   \<and> br_confirmation_status (hd (blockchain_records demo_stored_world)) = ''pending''
   \<and> br_block_height (hd (blockchain_records demo_stored_world)) = Some 1500000"
  by (simp add: createBlockchainRecord_def demo_confirmed_record_def empty_world_def
      demo_stored_world_def)

text \<open>
  Claim C9, as the code has it. \<^verbatim>\<open>createBlockchainRecord\<close> stores the block height the caller
  supplies, unchanged, beside the status \<^verbatim>\<open>'pending'\<close>, and leaves the earlier rows as they
  were: a stored block height is null only when the caller supplied none. Every record
  that \<^verbatim>\<open>generateBlockchainRecords\<close> builds carries a block height.
\<close>

theorem C9_block_height_as_supplied:
  "(createBlockchainRecord w r = Inr (w', i) \<longrightarrow>
      br_block_height (last (blockchain_records w')) = rd_block_height r
      \<and> br_confirmation_status (last (blockchain_records w')) = ''pending''
      \<and> butlast (blockchain_records w') = blockchain_records w)
   \<and> (g \<in> set (generateBlockchainRecords now draws txs) \<longrightarrow> rd_block_height g \<noteq> None)"
proof -
  have stored: "br_block_height (last (blockchain_records w')) = rd_block_height r
      \<and> br_confirmation_status (last (blockchain_records w')) = ''pending''
      \<and> butlast (blockchain_records w') = blockchain_records w"
    if a: "createBlockchainRecord w r = Inr (w', i)"
    using createBlockchainRecord_Inr [OF a] by auto
  have generated: "rd_block_height g \<noteq> None"
    if "g \<in> set (generateBlockchainRecords now draws txs)"
    using in_generateBlockchainRecords [OF that] by (auto simp: demo_record_def)
  from stored generated show ?thesis by blast
qed

theorem C9_block_height_as_supplied_witness:
  "createBlockchainRecord empty_world (demo_record ''2025-01-21T12:34:00.000Z'' (demo_draws 0) demo_tx)
     = Inr (empty_world\<lparr>blockchain_records :=
        [\<lparr>br_id = 1, br_transaction_id = ''TX1'', br_cardano_tx_hash = ''0xab'',
          br_nft_id = None, br_metadata = Some (Stringified (JObj (record_metadata demo_tx))),
          br_block_height = Some 1500000,
          br_confirmation_status = ''pending''\<rparr>]\<rparr>, 1)
   \<and> generateBlockchainRecords ''2025-01-21T12:34:00.000Z'' demo_draws [demo_tx]
       = [demo_record ''2025-01-21T12:34:00.000Z'' (demo_draws 0) demo_tx]
   \<and> rd_block_height (demo_record ''2025-01-21T12:34:00.000Z'' (demo_draws 0) demo_tx) = Some 1500000"
proof -
  have a: "createBlockchainRecord empty_world (demo_record ''2025-01-21T12:34:00.000Z'' (demo_draws 0) demo_tx)
     = Inr (empty_world\<lparr>blockchain_records :=
        [\<lparr>br_id = 1, br_transaction_id = ''TX1'', br_cardano_tx_hash = ''0xab'',
          br_nft_id = None, br_metadata = Some (Stringified (JObj (record_metadata demo_tx))),
          br_block_height = Some 1500000,
          br_confirmation_status = ''pending''\<rparr>]\<rparr>, 1)"
    by (simp add: createBlockchainRecord_def demo_record_def demo_draws_def demo_tx_def
        empty_world_def)
  have b: "generateBlockchainRecords ''2025-01-21T12:34:00.000Z'' demo_draws [demo_tx]
       = [demo_record ''2025-01-21T12:34:00.000Z'' (demo_draws 0) demo_tx]"
    by (simp add: generateBlockchainRecords_def demo_tx_def)
  from C9_block_height_as_supplied [of empty_world
      "demo_record ''2025-01-21T12:34:00.000Z'' (demo_draws 0) demo_tx" _ 1
      "demo_record ''2025-01-21T12:34:00.000Z'' (demo_draws 0) demo_tx"
      "''2025-01-21T12:34:00.000Z''" demo_draws "[demo_tx]"] a b
  show ?thesis
    by (simp add: demo_record_def demo_draws_def)
qed

section \<open>Properties of the routes and of the generators\<close>

lemma post_record_found:
  assumes "\<not> missing tid" and "getTransaction w tid = Some t"
  shows "post_record cardano w tid =
     (case cardano (length (ledger_calls w)) t (stored_prediction t) of
        Inl message \<Rightarrow>
          (Server_Error ''Failed to record transaction on blockchain'' message,
           w\<lparr>ledger_calls := ledger_calls w @ [(t, stored_prediction t)]\<rparr>)
      | Inr r \<Rightarrow>
          (case createBlockchainRecord
                  (w\<lparr>ledger_calls := ledger_calls w @ [(t, stored_prediction t)]\<rparr>) r of
             Inl message \<Rightarrow>
               (Server_Error ''Failed to record transaction on blockchain'' message,
                w\<lparr>ledger_calls := ledger_calls w @ [(t, stored_prediction t)]\<rparr>)
           | Inr (w2, lastID) \<Rightarrow>
               (Created \<lparr>rc_success = True, rc_transaction_id = tid,
                         rc_blockchain_record = r,
                         rc_message = ''Transaction recorded on blockchain successfully''\<rparr>,
                w2)))"
  using assms
  by (simp add: post_record_def call_integration_def Let_def split: sum.splits prod.splits)

lemma demo_world_recorded_eq:
  "demo_world_recorded =
     demo_world\<lparr>blockchain_records :=
                   [\<lparr>br_id = 1, br_transaction_id = ''TX1'', br_cardano_tx_hash = ''0xa'',
                     br_nft_id = None, br_metadata = None, br_block_height = None,
                     br_confirmation_status = ''pending''\<rparr>],
                 ledger_calls := [(demo_row, stored_prediction demo_row)]\<rparr>"
  by (simp add: demo_world_recorded_def post_record_def missing_def getTransaction_def
      demo_world_def empty_world_def demo_row_def demo_legit_row_def call_integration_def
      demo_ledger_def createBlockchainRecord_def)

lemma post_alert_Created:
  assumes "post_alert cardano w body = (Created c, w')"
  shows "length (fraud_alerts w') = Suc (length (fraud_alerts w))
       \<and> fa_id (last (fraud_alerts w')) = ac_alert_id c
       \<and> ar_severity body = Some (fa_severity (last (fraud_alerts w')))
       \<and> ar_confidence_score body = Some (fa_confidence_score (last (fraud_alerts w')))"
  using assms
  by (auto simp: post_alert_def createFraudAlert_def updateFraudAlertWithBlockchain_def
        call_integration_def Let_def
      split: if_splits option.splits sum.splits prod.splits
      dest!: createBlockchainRecord_Inr)

text \<open>
  Claim C1 says that a second call of the record route for a transaction that already has
  a pending record returns that record, submits nothing and adds nothing. With a ledger
  that answers every submission with a fresh hash, the second call for TX1 answers 201,
  is a second submission, and leaves two pending records for TX1. With a ledger that
  answers with the same hash again, the second call is a second submission as well and
  answers 500 with the UNIQUE violation, not with the existing record.
\<close>

theorem C1_counterexample:
  "map br_transaction_id (blockchain_records demo_world_recorded) = [''TX1'']
   \<and> map br_confirmation_status (blockchain_records demo_world_recorded) = [''pending'']
   \<and> length (ledger_calls demo_world_recorded) = 1
   \<and> status_code (fst (post_record demo_ledger demo_world_recorded (Some ''TX1''))) = 201
   \<and> map br_transaction_id
        (blockchain_records (snd (post_record demo_ledger demo_world_recorded (Some ''TX1''))))
      = [''TX1'', ''TX1'']
   \<and> map br_confirmation_status
        (blockchain_records (snd (post_record demo_ledger demo_world_recorded (Some ''TX1''))))
      = [''pending'', ''pending'']
   \<and> map br_cardano_tx_hash
        (blockchain_records (snd (post_record demo_ledger demo_world_recorded (Some ''TX1''))))
      = [''0xa'', ''0xaa'']
   \<and> length (ledger_calls (snd (post_record demo_ledger demo_world_recorded (Some ''TX1'')))) = 2
   \<and> fst (post_record fixed_ledger demo_world_recorded (Some ''TX1''))
      = Server_Error ''Failed to record transaction on blockchain''
          ''SQLITE_CONSTRAINT: UNIQUE constraint failed: blockchain_records.cardano_tx_hash''
   \<and> length (ledger_calls (snd (post_record fixed_ledger demo_world_recorded (Some ''TX1'')))) = 2"
  by (simp add: demo_world_recorded_eq post_record_def missing_def getTransaction_def
      demo_world_def empty_world_def demo_row_def demo_legit_row_def call_integration_def
      demo_ledger_def fixed_ledger_def createBlockchainRecord_def)

lemma post_record_outcome:
  assumes "\<not> missing tid" and "getTransaction w tid = Some t"
    and "post_record cardano w tid = (resp, w')"
  shows "ledger_calls w' = ledger_calls w @ [(t, stored_prediction t)]
       \<and> (case resp of
            Created body \<Rightarrow>
              (\<exists>row. blockchain_records w' = blockchain_records w @ [row]
                   \<and> br_confirmation_status row = ''pending''
                   \<and> br_cardano_tx_hash row \<notin> set (stored_hashes w)
                   \<and> rd_cardano_tx_hash (rc_blockchain_record body) = Some (br_cardano_tx_hash row))
          | Bad_Request err \<Rightarrow> False
          | Not_Found err i \<Rightarrow> False
          | Conflict err i \<Rightarrow> False
          | Server_Error err message \<Rightarrow> blockchain_records w' = blockchain_records w)"
proof -
  let ?w1 = "w\<lparr>ledger_calls := ledger_calls w @ [(t, stored_prediction t)]\<rparr>"
  note eq = post_record_found [OF assms(1,2), of cardano]
  show ?thesis
  proof (cases "cardano (length (ledger_calls w)) t (stored_prediction t)")
    case (Inl message)
    with eq assms(3) show ?thesis by auto
  next
    case (Inr r)
    show ?thesis
    proof (cases "createBlockchainRecord ?w1 r")
      case (Inl message)
      with eq Inr assms(3) show ?thesis by auto
    next
      case Inr2: (Inr p)
      obtain w2 i where p: "p = (w2, i)" by (cases p)
      from createBlockchainRecord_Inr [of ?w1 r w2 i] Inr2 p
      obtain tid' h where
        h: "rd_cardano_tx_hash r = Some h" "h \<notin> set (stored_hashes ?w1)" and
        w2: "w2 = ?w1\<lparr>blockchain_records := blockchain_records ?w1 @
                      [\<lparr>br_id = i, br_transaction_id = tid', br_cardano_tx_hash = h,
                        br_nft_id = rd_nft_id r, br_metadata = rd_metadata r,
                        br_block_height = rd_block_height r,
                        br_confirmation_status = ''pending''\<rparr>]\<rparr>"
        by auto
      from eq Inr Inr2 p assms(3) have
        resp: "resp = Created \<lparr>rc_success = True, rc_transaction_id = tid,
                         rc_blockchain_record = r,
                         rc_message = ''Transaction recorded on blockchain successfully''\<rparr>"
        and w': "w' = w2" by auto
      from h w2 w' resp show ?thesis
        by (simp add: stored_hashes_def)
    qed
  qed
qed

lemma post_alert_Created_record:
  assumes "post_alert cardano w body = (Created c, w')"
  shows "(\<exists>row. blockchain_records w' = blockchain_records w @ [row]
            \<and> br_confirmation_status row = ''pending''
            \<and> br_cardano_tx_hash row \<notin> set (stored_hashes w)
            \<and> rd_cardano_tx_hash (ac_blockchain_record c) = Some (br_cardano_tx_hash row))
       \<and> length (ledger_calls w') = Suc (length (ledger_calls w))"
  using assms
  by (auto simp: post_alert_def createFraudAlert_def updateFraudAlertWithBlockchain_def
        call_integration_def Let_def stored_hashes_def
      split: if_splits option.splits sum.splits prod.splits
      dest!: createBlockchainRecord_Inr)

text \<open>
  Claim C1, as the code has it. Neither route looks at a stored ledger record. For a
  stored transaction every call of the record route invokes the integration once more,
  with the prediction built from the stored row, whether or not a record of that
  transaction exists. The answer is 201 only when one new row has been appended, pending
  and with a hash that no stored row had, and the record returned is that new one; the
  only other answer is 500, with the table unchanged. The alert route is the same: when it
  answers 201 it has called the integration once more and appended one new pending row
  with a new hash. So an existing record is never returned, for any behaviour of the
  integration.
\<close>

theorem C1_record_route_always_submits:
  assumes "\<not> missing tid" and "getTransaction w tid = Some t"
    and "post_record cardano w tid = (resp, w')"
  shows "ledger_calls w' = ledger_calls w @ [(t, stored_prediction t)]
       \<and> (case resp of
            Created body \<Rightarrow>
              (\<exists>row. blockchain_records w' = blockchain_records w @ [row]
                   \<and> br_confirmation_status row = ''pending''
                   \<and> br_cardano_tx_hash row \<notin> set (stored_hashes w)
                   \<and> rd_cardano_tx_hash (rc_blockchain_record body) = Some (br_cardano_tx_hash row))
          | Bad_Request err \<Rightarrow> False
          | Not_Found err i \<Rightarrow> False
          | Conflict err i \<Rightarrow> False
          | Server_Error err message \<Rightarrow> blockchain_records w' = blockchain_records w)
       \<and> (post_alert cardano w body = (Created c, w2) \<longrightarrow>
            (\<exists>row. blockchain_records w2 = blockchain_records w @ [row]
                 \<and> br_confirmation_status row = ''pending''
                 \<and> br_cardano_tx_hash row \<notin> set (stored_hashes w)
                 \<and> rd_cardano_tx_hash (ac_blockchain_record c) = Some (br_cardano_tx_hash row))
            \<and> length (ledger_calls w2) = Suc (length (ledger_calls w)))"
  using post_record_outcome [OF assms] post_alert_Created_record [of cardano w body c w2]
  by blast

theorem C1_record_route_always_submits_witness:
  "\<not> missing (Some ''TX1'')
   \<and> getTransaction demo_world_recorded (Some ''TX1'') = Some demo_row
   \<and> map br_transaction_id (blockchain_records demo_world_recorded) = [''TX1'']
   \<and> ledger_calls (snd (post_record demo_ledger demo_world_recorded (Some ''TX1'')))
       = ledger_calls demo_world_recorded @ [(demo_row, stored_prediction demo_row)]
   \<and> fst (post_alert demo_ledger demo_world_recorded demo_alert_request)
       = Created \<lparr>ac_success = True, ac_alert_id = 1, ac_transaction_id = Some ''TX1'',
                   ac_blockchain_record =
                     \<lparr>rd_transaction_id = Some ''TX1'', rd_cardano_tx_hash = Some ''0xaa'',
                      rd_nft_id = None, rd_metadata = None, rd_block_height = None,
                      rd_confirmation_status = Some ''pending'', rd_created_at = None\<rparr>,
                   ac_message = ''Fraud alert created and recorded on blockchain''\<rparr>
   \<and> length (ledger_calls (snd (post_alert demo_ledger demo_world_recorded demo_alert_request)))
       = Suc (length (ledger_calls demo_world_recorded))"
proof -
  have a: "\<not> missing (Some ''TX1'')" by (simp add: missing_def)
  have b: "getTransaction demo_world_recorded (Some ''TX1'') = Some demo_row"
    by (simp add: demo_world_recorded_eq getTransaction_def demo_world_def empty_world_def
        demo_row_def)
  have c: "map br_transaction_id (blockchain_records demo_world_recorded) = [''TX1'']"
    by (simp add: demo_world_recorded_eq)
  have d: "fst (post_alert demo_ledger demo_world_recorded demo_alert_request)
       = Created \<lparr>ac_success = True, ac_alert_id = 1, ac_transaction_id = Some ''TX1'',
                   ac_blockchain_record =
                     \<lparr>rd_transaction_id = Some ''TX1'', rd_cardano_tx_hash = Some ''0xaa'',
                      rd_nft_id = None, rd_metadata = None, rd_block_height = None,
                      rd_confirmation_status = Some ''pending'', rd_created_at = None\<rparr>,
                   ac_message = ''Fraud alert created and recorded on blockchain''\<rparr>"
    by (simp add: demo_world_recorded_eq post_alert_def demo_alert_request_def missing_def
        getTransaction_def demo_world_def empty_world_def demo_row_def demo_legit_row_def
        createFraudAlert_def call_integration_def demo_ledger_def
        updateFraudAlertWithBlockchain_def createBlockchainRecord_def)
  then have e: "post_alert demo_ledger demo_world_recorded demo_alert_request
       = (Created \<lparr>ac_success = True, ac_alert_id = 1, ac_transaction_id = Some ''TX1'',
                   ac_blockchain_record =
                     \<lparr>rd_transaction_id = Some ''TX1'', rd_cardano_tx_hash = Some ''0xaa'',
                      rd_nft_id = None, rd_metadata = None, rd_block_height = None,
                      rd_confirmation_status = Some ''pending'', rd_created_at = None\<rparr>,
                   ac_message = ''Fraud alert created and recorded on blockchain''\<rparr>,
          snd (post_alert demo_ledger demo_world_recorded demo_alert_request))"
    by (simp add: prod_eq_iff)
  from C1_record_route_always_submits
      [where cardano = demo_ledger and body = demo_alert_request, OF a b surjective_pairing]
    a b c d e
  show ?thesis
    by simp
qed

lemma post_record_status:
  "status_code (fst (post_record cardano w tid)) \<in> {201, 400, 404, 500}"
  by (simp add: post_record_def call_integration_def Let_def
      split: option.splits sum.splits prod.splits)

text \<open>
  Claim C2 says that a transaction whose prediction has \<^verbatim>\<open>is_fraud\<close> false is refused with
  NotEligible, gets no ledger record, and does not proceed to the ledger. TX2 is stored
  with \<^verbatim>\<open>is_fraud = 0\<close>. The record route hands its prediction, with \<^verbatim>\<open>is_fraud: false\<close>, to
  the integration. When the integration accepts, the route stores the record and answers
  201. When the integration has a check of its own and refuses, the route has called it
  all the same, and what it answers is the 500 of its \<^verbatim>\<open>catch\<close>.
\<close>

theorem C2_counterexample:
  "getTransaction demo_world (Some ''TX2'') = Some demo_legit_row
   \<and> tr_is_fraud demo_legit_row = JNum 0
   \<and> fp_is_fraud (stored_prediction demo_legit_row) = JBool False
   \<and> status_code (fst (post_record demo_ledger demo_world (Some ''TX2''))) = 201
   \<and> map br_transaction_id
        (blockchain_records (snd (post_record demo_ledger demo_world (Some ''TX2'')))) = [''TX2'']
   \<and> ledger_calls (snd (post_record demo_ledger demo_world (Some ''TX2'')))
       = [(demo_legit_row, stored_prediction demo_legit_row)]
   \<and> fst (post_record gating_ledger demo_world (Some ''TX2''))
       = Server_Error ''Failed to record transaction on blockchain'' ''NotEligible''
   \<and> ledger_calls (snd (post_record gating_ledger demo_world (Some ''TX2'')))
       = [(demo_legit_row, stored_prediction demo_legit_row)]"
  by (simp add: post_record_def missing_def getTransaction_def stored_prediction_def js_or_def
      demo_world_def empty_world_def demo_row_def demo_legit_row_def call_integration_def
      demo_ledger_def gating_ledger_def createBlockchainRecord_def)

text \<open>
  Claim C2, as the code has it. The record route has no eligibility gate and no
  NotEligible outcome: its answers are 201, 400, 404 and 500, for every behaviour of the
  integration. For every stored transaction, fraud or not, it calls the integration with
  the prediction built from the stored flag (\<^verbatim>\<open>false\<close> when the flag is falsy). What it
  answers then is decided by the integration and the table alone: 500 with the message
  and nothing stored when the integration throws or the insertion fails, and 201 with the
  record stored when the integration answers with a record that the table accepts.
\<close>

theorem C2_record_route_has_no_gate:
  "status_code (fst (post_record cardano w tid)) \<in> {201, 400, 404, 500}
   \<and> (\<not> missing tid \<and> getTransaction w tid = Some t \<longrightarrow>
        ledger_calls (snd (post_record cardano w tid))
          = ledger_calls w @ [(t, stored_prediction t)]
        \<and> fp_is_fraud (stored_prediction t)
            = (if truthy (tr_is_fraud t) then tr_is_fraud t else JBool False)
        \<and> post_record cardano w tid =
            (case cardano (length (ledger_calls w)) t (stored_prediction t) of
               Inl message \<Rightarrow>
                 (Server_Error ''Failed to record transaction on blockchain'' message,
                  w\<lparr>ledger_calls := ledger_calls w @ [(t, stored_prediction t)]\<rparr>)
             | Inr r \<Rightarrow>
                 (case createBlockchainRecord
                         (w\<lparr>ledger_calls := ledger_calls w @ [(t, stored_prediction t)]\<rparr>) r of
                    Inl message \<Rightarrow>
                      (Server_Error ''Failed to record transaction on blockchain'' message,
                       w\<lparr>ledger_calls := ledger_calls w @ [(t, stored_prediction t)]\<rparr>)
                  | Inr (w2, lastID) \<Rightarrow>
                      (Created \<lparr>rc_success = True, rc_transaction_id = tid,
                                rc_blockchain_record = r,
                                rc_message = ''Transaction recorded on blockchain successfully''\<rparr>,
                       w2))))
   \<and> (\<not> missing tid \<and> getTransaction w tid = Some t
        \<and> cardano (length (ledger_calls w)) t (stored_prediction t) = Inr r
        \<and> createBlockchainRecord
             (w\<lparr>ledger_calls := ledger_calls w @ [(t, stored_prediction t)]\<rparr>) r = Inr (w', i) \<longrightarrow>
        post_record cardano w tid =
          (Created \<lparr>rc_success = True, rc_transaction_id = tid, rc_blockchain_record = r,
                    rc_message = ''Transaction recorded on blockchain successfully''\<rparr>, w'))"
proof -
  have found: "ledger_calls (snd (post_record cardano w tid))
          = ledger_calls w @ [(t, stored_prediction t)]
        \<and> fp_is_fraud (stored_prediction t)
            = (if truthy (tr_is_fraud t) then tr_is_fraud t else JBool False)
        \<and> post_record cardano w tid =
            (case cardano (length (ledger_calls w)) t (stored_prediction t) of
               Inl message \<Rightarrow>
                 (Server_Error ''Failed to record transaction on blockchain'' message,
                  w\<lparr>ledger_calls := ledger_calls w @ [(t, stored_prediction t)]\<rparr>)
             | Inr r \<Rightarrow>
                 (case createBlockchainRecord
                         (w\<lparr>ledger_calls := ledger_calls w @ [(t, stored_prediction t)]\<rparr>) r of
                    Inl message \<Rightarrow>
                      (Server_Error ''Failed to record transaction on blockchain'' message,
                       w\<lparr>ledger_calls := ledger_calls w @ [(t, stored_prediction t)]\<rparr>)
                  | Inr (w2, lastID) \<Rightarrow>
                      (Created \<lparr>rc_success = True, rc_transaction_id = tid,
                                rc_blockchain_record = r,
                                rc_message = ''Transaction recorded on blockchain successfully''\<rparr>,
                       w2)))"
    if h: "\<not> missing tid \<and> getTransaction w tid = Some t"
  proof -
    from h have m: "\<not> missing tid" and g: "getTransaction w tid = Some t" by simp_all
    obtain resp w1 where run: "post_record cardano w tid = (resp, w1)"
      by (cases "post_record cardano w tid")
    from post_record_outcome [OF m g run] run
    have calls: "ledger_calls (snd (post_record cardano w tid))
          = ledger_calls w @ [(t, stored_prediction t)]" by simp
    have flag: "fp_is_fraud (stored_prediction t)
            = (if truthy (tr_is_fraud t) then tr_is_fraud t else JBool False)"
      by (simp add: stored_prediction_def js_or_def)
    from calls flag post_record_found [OF m g, of cardano] show ?thesis by simp
  qed
  have accepted: "post_record cardano w tid =
          (Created \<lparr>rc_success = True, rc_transaction_id = tid, rc_blockchain_record = r,
                    rc_message = ''Transaction recorded on blockchain successfully''\<rparr>, w')"
    if h: "\<not> missing tid \<and> getTransaction w tid = Some t
        \<and> cardano (length (ledger_calls w)) t (stored_prediction t) = Inr r
        \<and> createBlockchainRecord
             (w\<lparr>ledger_calls := ledger_calls w @ [(t, stored_prediction t)]\<rparr>) r = Inr (w', i)"
  proof -
    from h have m: "\<not> missing tid" and g: "getTransaction w tid = Some t" by simp_all
    from post_record_found [OF m g, of cardano] h show ?thesis by simp
  qed
  from post_record_status [of cardano w tid] found accepted show ?thesis by blast
qed

theorem C2_record_route_has_no_gate_witness:
  "\<not> missing (Some ''TX2'')
   \<and> getTransaction demo_world (Some ''TX2'') = Some demo_legit_row
   \<and> \<not> truthy (tr_is_fraud demo_legit_row)
   \<and> fp_is_fraud (stored_prediction demo_legit_row) = JBool False
   \<and> ledger_calls (snd (post_record demo_ledger demo_world (Some ''TX2'')))
       = ledger_calls demo_world @ [(demo_legit_row, stored_prediction demo_legit_row)]
   \<and> status_code (fst (post_record demo_ledger demo_world (Some ''TX2''))) = 201
   \<and> blockchain_records (snd (post_record demo_ledger demo_world (Some ''TX2'')))
       = [\<lparr>br_id = 1, br_transaction_id = ''TX2'', br_cardano_tx_hash = ''0xa'',
           br_nft_id = None, br_metadata = None, br_block_height = None,
           br_confirmation_status = ''pending''\<rparr>]"
proof -
  have a: "\<not> missing (Some ''TX2'')" by (simp add: missing_def)
  have b: "getTransaction demo_world (Some ''TX2'') = Some demo_legit_row"
    by (simp add: getTransaction_def demo_world_def empty_world_def demo_row_def
        demo_legit_row_def)
  have c: "demo_ledger (length (ledger_calls demo_world)) demo_legit_row
             (stored_prediction demo_legit_row)
           = Inr \<lparr>rd_transaction_id = Some ''TX2'', rd_cardano_tx_hash = Some ''0xa'',
                  rd_nft_id = None, rd_metadata = None, rd_block_height = None,
                  rd_confirmation_status = Some ''pending'', rd_created_at = None\<rparr>"
    by (simp add: demo_ledger_def demo_world_def empty_world_def demo_legit_row_def)
  have d: "createBlockchainRecord
             (demo_world\<lparr>ledger_calls := ledger_calls demo_world
                  @ [(demo_legit_row, stored_prediction demo_legit_row)]\<rparr>)
             \<lparr>rd_transaction_id = Some ''TX2'', rd_cardano_tx_hash = Some ''0xa'',
              rd_nft_id = None, rd_metadata = None, rd_block_height = None,
              rd_confirmation_status = Some ''pending'', rd_created_at = None\<rparr>
           = Inr (demo_world\<lparr>ledger_calls := ledger_calls demo_world
                     @ [(demo_legit_row, stored_prediction demo_legit_row)],
                   blockchain_records :=
                     [\<lparr>br_id = 1, br_transaction_id = ''TX2'', br_cardano_tx_hash = ''0xa'',
                       br_nft_id = None, br_metadata = None, br_block_height = None,
                       br_confirmation_status = ''pending''\<rparr>]\<rparr>, 1)"
    by (simp add: createBlockchainRecord_def demo_world_def empty_world_def)
  have e: "\<not> truthy (tr_is_fraud demo_legit_row)"
    by (simp add: demo_legit_row_def)
  from C2_record_route_has_no_gate
      [where cardano = demo_ledger and w = demo_world and tid = "Some ''TX2''"
         and t = demo_legit_row
         and r = "\<lparr>rd_transaction_id = Some ''TX2'', rd_cardano_tx_hash = Some ''0xa'',
                  rd_nft_id = None, rd_metadata = None, rd_block_height = None,
                  rd_confirmation_status = Some ''pending'', rd_created_at = None\<rparr>"
         and w' = "demo_world\<lparr>ledger_calls := ledger_calls demo_world
                     @ [(demo_legit_row, stored_prediction demo_legit_row)],
                   blockchain_records :=
                     [\<lparr>br_id = 1, br_transaction_id = ''TX2'', br_cardano_tx_hash = ''0xa'',
                       br_nft_id = None, br_metadata = None, br_block_height = None,
                       br_confirmation_status = ''pending''\<rparr>]\<rparr>"
         and i = 1]
    a b c d e
  show ?thesis
    by simp
qed

text \<open>
  Claim C4 says that the payload holds, among others, the currency, the fraud score, the
  confidence, the model, the schema version and the alert type, and a flag that follows
  the fraud verdict. The transaction of 1500 is fraudulent for \<^verbatim>\<open>seedDatabase\<close>; the payload
  that \<^verbatim>\<open>generateBlockchainRecords\<close> builds for it has six fields and the flag
  \<^verbatim>\<open>Legitimate\<close>.
\<close>

theorem C4_counterexample:
  "seed_isFraud demo_tx
   \<and> map rd_metadata (generateBlockchainRecords ''2025-01-21T12:35:00.000Z'' demo_draws [demo_tx])
     = [Some (Stringified (JObj
          [(''transactionID'', JStr ''TX1''),
           (''amount'', JNum 1500),
           (''flag'', JStr ''Legitimate''),
           (''timestamp'', JStr ''2025-01-21T12:34:00.000Z''),
           (''merchantName'', JStr ''Airlines''),
           (''merchantCategory'', JStr ''travel'')]))]"
  by (simp add: seed_isFraud_def generateBlockchainRecords_def demo_record_def
      record_metadata_def demo_tx_def)

text \<open>
  Claim C4, as the code has it. For each transaction it records (an amount above 1000),
  \<^verbatim>\<open>generateBlockchainRecords\<close> serialises a payload of exactly six fields: the transaction
  identifier, the amount, the flag, the timestamp, the merchant name and the merchant
  category. The flag is \<^verbatim>\<open>Suspicious\<close> exactly when the amount is above 2000, and
  \<^verbatim>\<open>Legitimate\<close> otherwise.
\<close>

theorem C4_demo_metadata:
  assumes "r \<in> set (generateBlockchainRecords now draws txs)"
  shows "\<exists>t \<in> set txs. dt_amount t > 1000
         \<and> rd_transaction_id r = Some (dt_transaction_id t)
         \<and> rd_metadata r = Some (Stringified (JObj
              [(''transactionID'', JStr (dt_transaction_id t)),
               (''amount'', JNum (dt_amount t)),
               (''flag'', JStr (if dt_amount t > 2000 then ''Suspicious'' else ''Legitimate'')),
               (''timestamp'', JStr (dt_timestamp t)),
               (''merchantName'', JStr (dt_merchant_name t)),
               (''merchantCategory'', JStr (dt_merchant_category t))]))"
proof -
  from in_generateBlockchainRecords [OF assms] obtain k t where
    t: "t \<in> set txs" "dt_amount t > 1000" and r: "r = demo_record now (draws k) t"
    by blast
  from r have "rd_transaction_id r = Some (dt_transaction_id t)
     \<and> rd_metadata r = Some (Stringified (JObj (record_metadata t)))"
    by (simp add: demo_record_def)
  with t show ?thesis
    unfolding record_metadata_def by blast
qed

theorem C4_demo_metadata_witness:
  "demo_record ''2025-01-21T12:35:00.000Z'' (demo_draws 0) demo_tx
     \<in> set (generateBlockchainRecords ''2025-01-21T12:35:00.000Z'' demo_draws [demo_tx])
   \<and> rd_metadata (demo_record ''2025-01-21T12:35:00.000Z'' (demo_draws 0) demo_tx)
     = Some (Stringified (JObj
          [(''transactionID'', JStr ''TX1''),
           (''amount'', JNum 1500),
           (''flag'', JStr ''Legitimate''),
           (''timestamp'', JStr ''2025-01-21T12:34:00.000Z''),
           (''merchantName'', JStr ''Airlines''),
           (''merchantCategory'', JStr ''travel'')]))"
proof -
  have m: "demo_record ''2025-01-21T12:35:00.000Z'' (demo_draws 0) demo_tx
     \<in> set (generateBlockchainRecords ''2025-01-21T12:35:00.000Z'' demo_draws [demo_tx])"
    by (simp add: generateBlockchainRecords_def demo_tx_def)
  from C4_demo_metadata [OF m] m show ?thesis
    by (simp add: demo_tx_def)
qed

text \<open>
  Claim C5 says that a ledger that is unavailable does not fail the caller, who gets a
  pending record without a hash. With an integration that throws \<^verbatim>\<open>LedgerUnavailable\<close> the
  record route answers 500 with that message and stores no record. With an integration
  that itself answers with a pending record without a hash, the insertion fails on
  NOT NULL and the route answers 500 as well.
\<close>

theorem C5_counterexample:
  "post_record unavailable_ledger demo_world (Some ''TX1'')
     = (Server_Error ''Failed to record transaction on blockchain'' ''LedgerUnavailable'',
        demo_world\<lparr>ledger_calls := [(demo_row, stored_prediction demo_row)]\<rparr>)
   \<and> blockchain_records (snd (post_record unavailable_ledger demo_world (Some ''TX1''))) = []
   \<and> post_record queueing_ledger demo_world (Some ''TX1'')
     = (Server_Error ''Failed to record transaction on blockchain''
          ''SQLITE_CONSTRAINT: NOT NULL constraint failed: blockchain_records.cardano_tx_hash'',
        demo_world\<lparr>ledger_calls := [(demo_row, stored_prediction demo_row)]\<rparr>)"
  by (simp add: post_record_def missing_def getTransaction_def
      demo_world_def empty_world_def demo_row_def demo_legit_row_def call_integration_def
      unavailable_ledger_def queueing_ledger_def createBlockchainRecord_def)

text \<open>
  Claim C5, as the code has it. When the integration throws, whatever the error, the
  record route fails the caller: it answers 500 with the error's message and the tables
  are unchanged. A record without a hash cannot be stored either: if the integration
  answers with a record whose hash is null, the insertion violates NOT NULL and the route
  answers 500 with the tables unchanged. Nothing schedules a retry.
\<close>

theorem C5_ledger_failure_fails_caller:
  assumes "\<not> missing tid" and "getTransaction w tid = Some t"
  shows "(cardano (length (ledger_calls w)) t (stored_prediction t) = Inl message \<longrightarrow>
            post_record cardano w tid =
              (Server_Error ''Failed to record transaction on blockchain'' message,
               w\<lparr>ledger_calls := ledger_calls w @ [(t, stored_prediction t)]\<rparr>))
       \<and> (cardano (length (ledger_calls w)) t (stored_prediction t) = Inr r
            \<and> rd_cardano_tx_hash r = None \<longrightarrow>
            status_code (fst (post_record cardano w tid)) = 500
            \<and> snd (post_record cardano w tid)
                = w\<lparr>ledger_calls := ledger_calls w @ [(t, stored_prediction t)]\<rparr>)"
  using post_record_found [OF assms, of cardano]
  by (auto simp: createBlockchainRecord_def split: option.splits)

theorem C5_ledger_failure_fails_caller_witness:
  "\<not> missing (Some ''TX1'')
   \<and> getTransaction demo_world (Some ''TX1'') = Some demo_row
   \<and> unavailable_ledger (length (ledger_calls demo_world)) demo_row (stored_prediction demo_row)
       = Inl ''LedgerUnavailable''
   \<and> post_record unavailable_ledger demo_world (Some ''TX1'')
       = (Server_Error ''Failed to record transaction on blockchain'' ''LedgerUnavailable'',
          demo_world\<lparr>ledger_calls := ledger_calls demo_world
                        @ [(demo_row, stored_prediction demo_row)]\<rparr>)"
proof -
  have a: "\<not> missing (Some ''TX1'')" by (simp add: missing_def)
  have b: "getTransaction demo_world (Some ''TX1'') = Some demo_row"
    by (simp add: getTransaction_def demo_world_def empty_world_def demo_row_def)
  have c: "unavailable_ledger (length (ledger_calls demo_world)) demo_row
             (stored_prediction demo_row) = Inl ''LedgerUnavailable''"
    by (simp add: unavailable_ledger_def)
  from C5_ledger_failure_fails_caller [OF a b, of unavailable_ledger "''LedgerUnavailable''"]
    a b c show ?thesis
    by simp
qed

text \<open>
  Claim C8 says that the severity is \<^verbatim>\<open>high\<close> exactly when the score is at least 0.8. The
  alert generated for the night transaction of 300 has the confidence score 0.996 and
  the severity \<^verbatim>\<open>low\<close>.
\<close>

theorem C8_counterexample:
  "map ad_severity (generateFraudAlerts ''2025-01-21T12:35:00.000Z'' demo_confidence_draws [demo_night_tx])
     = [Some ''low'']
   \<and> map ad_confidence_score
        (generateFraudAlerts ''2025-01-21T12:35:00.000Z'' demo_confidence_draws [demo_night_tx])
     = [Some (996 / 1000)]"
  by (simp add: generateFraudAlerts_def suspicious_def demo_alert_def demo_confidence_draws_def
      demo_night_tx_def demo_tx_def)

text \<open>
  Claim C8, as the code has it. The severity never comes from the score.
  \<^verbatim>\<open>generateFraudAlerts\<close> derives it from the amount of the transaction: \<^verbatim>\<open>high\<close> above 2000,
  \<^verbatim>\<open>medium\<close> above 1000 and up to 2000, \<^verbatim>\<open>low\<close> otherwise; the severities it assigns are the
  same for all random draws of the confidence. The alert route stores the severity and the
  confidence score that the caller sends, unchanged.
\<close>

theorem C8_severity_not_from_score:
  "(a \<in> set (generateFraudAlerts now draws txs) \<longrightarrow>
      (\<exists>t \<in> set txs. suspicious t
         \<and> ad_transaction_id a = Some (dt_transaction_id t)
         \<and> ad_severity a = Some (if dt_amount t > 2000 then ''high''
                                 else if dt_amount t > 1000 then ''medium'' else ''low'')))
   \<and> map ad_severity (generateFraudAlerts now draws txs)
       = map ad_severity (generateFraudAlerts now' draws' txs)
   \<and> (post_alert cardano w body = (Created c, w') \<longrightarrow>
        length (fraud_alerts w') = Suc (length (fraud_alerts w))
        \<and> fa_id (last (fraud_alerts w')) = ac_alert_id c
        \<and> ar_severity body = Some (fa_severity (last (fraud_alerts w')))
        \<and> ar_confidence_score body = Some (fa_confidence_score (last (fraud_alerts w'))))"
proof -
  have generated: "\<exists>t \<in> set txs. suspicious t
         \<and> ad_transaction_id a = Some (dt_transaction_id t)
         \<and> ad_severity a = Some (if dt_amount t > 2000 then ''high''
                                 else if dt_amount t > 1000 then ''medium'' else ''low'')"
    if "a \<in> set (generateFraudAlerts now draws txs)"
  proof -
    from in_generateFraudAlerts [OF that] obtain k t where
      t: "t \<in> set txs" "suspicious t" and a: "a = demo_alert now (draws k) t"
      by blast
    from a have "ad_transaction_id a = Some (dt_transaction_id t)
         \<and> ad_severity a = Some (if dt_amount t > 2000 then ''high''
                                 else if dt_amount t > 1000 then ''medium'' else ''low'')"
      by (simp add: demo_alert_def)
    with t show ?thesis by blast
  qed
  have independent: "map ad_severity (generateFraudAlerts now draws txs)
       = map ad_severity (generateFraudAlerts now' draws' txs)"
    by (simp add: generateFraudAlerts_def demo_alert_def split_def map_eq_conv
        enumerate_eq_zip in_set_zip)
  from generated independent post_alert_Created [of cardano w body c w']
  show ?thesis by blast
qed

theorem C8_severity_not_from_score_witness:
  "demo_alert ''2025-01-21T12:35:00.000Z'' (demo_confidence_draws 0) demo_night_tx
     \<in> set (generateFraudAlerts ''2025-01-21T12:35:00.000Z'' demo_confidence_draws [demo_night_tx])
   \<and> dt_amount demo_night_tx = 300
   \<and> ad_severity (demo_alert ''2025-01-21T12:35:00.000Z'' (demo_confidence_draws 0) demo_night_tx)
       = Some ''low''
   \<and> fst (post_alert demo_ledger demo_world demo_alert_request)
       = Created \<lparr>ac_success = True, ac_alert_id = 1, ac_transaction_id = Some ''TX1'',
                   ac_blockchain_record =
                     \<lparr>rd_transaction_id = Some ''TX1'', rd_cardano_tx_hash = Some ''0xa'',
                      rd_nft_id = None, rd_metadata = None, rd_block_height = None,
                      rd_confirmation_status = Some ''pending'', rd_created_at = None\<rparr>,
                   ac_message = ''Fraud alert created and recorded on blockchain''\<rparr>
   \<and> ar_confidence_score demo_alert_request = Some (85 / 100)
   \<and> fa_severity (last (fraud_alerts (snd (post_alert demo_ledger demo_world demo_alert_request))))
       = ''low''"
proof -
  have a: "demo_alert ''2025-01-21T12:35:00.000Z'' (demo_confidence_draws 0) demo_night_tx
     \<in> set (generateFraudAlerts ''2025-01-21T12:35:00.000Z'' demo_confidence_draws [demo_night_tx])"
    by (simp add: generateFraudAlerts_def suspicious_def demo_night_tx_def demo_tx_def)
  have b: "fst (post_alert demo_ledger demo_world demo_alert_request)
       = Created \<lparr>ac_success = True, ac_alert_id = 1, ac_transaction_id = Some ''TX1'',
                   ac_blockchain_record =
                     \<lparr>rd_transaction_id = Some ''TX1'', rd_cardano_tx_hash = Some ''0xa'',
                      rd_nft_id = None, rd_metadata = None, rd_block_height = None,
                      rd_confirmation_status = Some ''pending'', rd_created_at = None\<rparr>,
                   ac_message = ''Fraud alert created and recorded on blockchain''\<rparr>"
    by (simp add: post_alert_def demo_alert_request_def missing_def getTransaction_def
        demo_world_def empty_world_def demo_row_def demo_legit_row_def createFraudAlert_def
        call_integration_def demo_ledger_def updateFraudAlertWithBlockchain_def
        createBlockchainRecord_def)
  then have c: "post_alert demo_ledger demo_world demo_alert_request
       = (Created \<lparr>ac_success = True, ac_alert_id = 1, ac_transaction_id = Some ''TX1'',
                   ac_blockchain_record =
                     \<lparr>rd_transaction_id = Some ''TX1'', rd_cardano_tx_hash = Some ''0xa'',
                      rd_nft_id = None, rd_metadata = None, rd_block_height = None,
                      rd_confirmation_status = Some ''pending'', rd_created_at = None\<rparr>,
                   ac_message = ''Fraud alert created and recorded on blockchain''\<rparr>,
          snd (post_alert demo_ledger demo_world demo_alert_request))"
    by (simp add: prod_eq_iff)
  have d: "ar_severity demo_alert_request = Some ''low''
           \<and> ar_confidence_score demo_alert_request = Some (85 / 100)"
    by (simp add: demo_alert_request_def)
  have e: "dt_amount demo_night_tx = 300" by (simp add: demo_night_tx_def)
  from C8_severity_not_from_score
      [where cardano = demo_ledger and w = demo_world and body = demo_alert_request
         and now = "''2025-01-21T12:35:00.000Z''" and draws = demo_confidence_draws
         and txs = "[demo_night_tx]"
         and a = "demo_alert ''2025-01-21T12:35:00.000Z'' (demo_confidence_draws 0) demo_night_tx"
         and w' = "snd (post_alert demo_ledger demo_world demo_alert_request)"
         and c = "\<lparr>ac_success = True, ac_alert_id = 1, ac_transaction_id = Some ''TX1'',
                   ac_blockchain_record =
                     \<lparr>rd_transaction_id = Some ''TX1'', rd_cardano_tx_hash = Some ''0xa'',
                      rd_nft_id = None, rd_metadata = None, rd_block_height = None,
                      rd_confirmation_status = Some ''pending'', rd_created_at = None\<rparr>,
                   ac_message = ''Fraud alert created and recorded on blockchain''\<rparr>"]
    a b c d e
  show ?thesis
    by (simp add: e)
qed

section \<open>Properties of the scoring bridge\<close>

lemma getTransaction_None_iff:
  "getTransaction w (Some tid) = None \<longleftrightarrow> tid \<notin> set (map tr_transaction_id (transactions w))"
  by (auto simp: getTransaction_def find_None_iff)

lemma runFraudDetection_resolves:
  "\<exists>d. runFraudDetection json_parse to_number code output = Inr d"
  by (simp add: runFraudDetection_def split: option.splits)

lemma runFraudDetection_nonzero:
  "code \<noteq> Some 0 \<Longrightarrow> runFraudDetection json_parse to_number code output = Inr fallback_prediction"
  by (simp add: runFraudDetection_def)

lemma runFraudDetection_unparsed:
  "parse_output json_parse output = None
     \<Longrightarrow> runFraudDetection json_parse to_number code output = Inr fallback_prediction"
  by (simp add: runFraudDetection_def)

lemma runFraudDetection_null:
  "parse_output json_parse output = Some JNull
     \<Longrightarrow> runFraudDetection json_parse to_number code output = Inr fallback_prediction"
  by (simp add: runFraudDetection_def read_prediction_def)

lemma post_transaction_fallback:
  assumes "missing_fields d = []" and "td_transaction_id d = Some tid"
    and "getTransaction w (Some tid) = None"
    and "runFraudDetection json_parse to_number (fst (python d)) (snd (python d))
           = Inr fallback_prediction"
  shows "\<exists>w'. post_transaction json_parse to_number python w d =
           (Created \<lparr>tc_success = True, tc_transaction_id = tid,
                     tc_fraud_detection = fallback_prediction,
                     tc_message = ''Transaction created and analyzed successfully''\<rparr>, w')"
proof -
  from assms(1,2) obtain uid amt ty where
    f: "td_user_id d = Some uid" "td_amount d = Some amt" "td_transaction_type d = Some ty"
    by (auto simp: missing_fields_def missing_def split: if_splits option.splits)
  from assms(3) have "tid \<notin> set (map tr_transaction_id (transactions w))"
    by (simp add: getTransaction_None_iff)
  with f assms(2) obtain w1 i where "createTransaction w d = Inr (w1, i, tid)"
    by (simp add: createTransaction_def Let_def)
  with assms show ?thesis
    by (simp add: post_transaction_def)
qed

text \<open>
  Claim C3. A failure of the scoring process is never propagated. When the process ends
  with an exit code other than 0 (or is ended by a signal), or when its output cannot be
  parsed into a prediction (no line holds the marker, nothing follows the marker,
  \<^verbatim>\<open>JSON.parse\<close> throws, or the parsed value is \<^verbatim>\<open>null\<close>), \<^verbatim>\<open>runFraudDetection\<close> resolves with the
  conservative default, whose \<^verbatim>\<open>is_fraud\<close> is 0 and whose \<^verbatim>\<open>fraud_score\<close> is 0.1. Ingestion is not
  blocked: for a new transaction with its required fields, \<^verbatim>\<open>POST /api/transactions\<close> then
  answers 201 with that default.
\<close>

theorem C3_scoring_failure_falls_back:
  "(code \<noteq> Some 0 \<or> parse_output json_parse output = None
        \<or> parse_output json_parse output = Some JNull \<longrightarrow>
      runFraudDetection json_parse to_number code output = Inr fallback_prediction)
   \<and> fd_is_fraud fallback_prediction = JNum 0
   \<and> fd_fraud_score fallback_prediction = JNum (1 / 10)
   \<and> (missing_fields d = [] \<and> td_transaction_id d = Some tid
        \<and> getTransaction w (Some tid) = None
        \<and> (fst (python d) \<noteq> Some 0 \<or> parse_output json_parse (snd (python d)) = None) \<longrightarrow>
        fst (post_transaction json_parse to_number python w d) =
          Created \<lparr>tc_success = True, tc_transaction_id = tid,
                    tc_fraud_detection = fallback_prediction,
                    tc_message = ''Transaction created and analyzed successfully''\<rparr>)"
proof -
  have a: "runFraudDetection json_parse to_number code output = Inr fallback_prediction"
    if "code \<noteq> Some 0 \<or> parse_output json_parse output = None
        \<or> parse_output json_parse output = Some JNull"
    using that runFraudDetection_nonzero runFraudDetection_unparsed runFraudDetection_null
    by blast
  have b: "fst (post_transaction json_parse to_number python w d) =
          Created \<lparr>tc_success = True, tc_transaction_id = tid,
                    tc_fraud_detection = fallback_prediction,
                    tc_message = ''Transaction created and analyzed successfully''\<rparr>"
    if h: "missing_fields d = [] \<and> td_transaction_id d = Some tid
        \<and> getTransaction w (Some tid) = None
        \<and> (fst (python d) \<noteq> Some 0 \<or> parse_output json_parse (snd (python d)) = None)"
  proof -
    from h have "runFraudDetection json_parse to_number (fst (python d)) (snd (python d))
           = Inr fallback_prediction"
      using runFraudDetection_nonzero runFraudDetection_unparsed by blast
    with h post_transaction_fallback [of d tid w json_parse to_number python]
    show ?thesis by auto
  qed
  from a b show ?thesis
    by (simp add: fallback_prediction_def)
qed

theorem C3_scoring_failure_falls_back_witness:
  "runFraudDetection demo_json_parse demo_to_number (Some 1) [] = Inr fallback_prediction
   \<and> parse_output demo_json_parse ''Sample prediction: {oops'' = None
   \<and> runFraudDetection demo_json_parse demo_to_number (Some 0) ''Sample prediction: {oops''
       = Inr fallback_prediction
   \<and> missing_fields demo_new_transaction = []
   \<and> getTransaction demo_world (Some ''TX3'') = None
   \<and> fst (demo_failing_python demo_new_transaction) = Some 1
   \<and> fst (post_transaction demo_json_parse demo_to_number demo_failing_python
            demo_world demo_new_transaction)
       = Created \<lparr>tc_success = True, tc_transaction_id = ''TX3'',
                   tc_fraud_detection = fallback_prediction,
                   tc_message = ''Transaction created and analyzed successfully''\<rparr>"
proof -
  have p: "parse_output demo_json_parse ''Sample prediction: {oops'' = None"
    by (simp add: parse_output_def trim_def is_space_def demo_json_parse_def)
  have m: "missing_fields demo_new_transaction = []
           \<and> td_transaction_id demo_new_transaction = Some ''TX3''"
    by (simp add: missing_fields_def missing_def demo_new_transaction_def)
  have g: "getTransaction demo_world (Some ''TX3'') = None"
    by (simp add: getTransaction_def demo_world_def empty_world_def demo_row_def
        demo_legit_row_def)
  have f: "fst (demo_failing_python demo_new_transaction) = Some 1"
    by (simp add: demo_failing_python_def)
  from C3_scoring_failure_falls_back [of "Some 1" demo_json_parse "[]" demo_to_number
      demo_new_transaction "''TX3''" demo_world demo_failing_python]
    C3_scoring_failure_falls_back [of "Some 0" demo_json_parse
      "''Sample prediction: {oops''" demo_to_number]
    p m g f
  show ?thesis by simp
qed

section \<open>Properties of the batch routes\<close>

lemma batch_reported_simps:
  "batch_reported key (Inl message) = None"
  "batch_reported key (Inr (rs, es)) = Some (mset (map key rs) + mset (map be_transaction_id es))"
  by (simp_all add: batch_reported_def)

lemma batch_reported_Some:
  "batch_reported key outcome = Some m \<Longrightarrow>
     \<exists>rs es. outcome = Inr (rs, es) \<and> mset (map key rs) + mset (map be_transaction_id es) = m"
  by (auto simp: batch_reported_def split: sum.splits)

lemma batch_record_loop_reported:
  "batch_reported rr_transaction_id (fst (batch_record_loop cardano w results errors ids))
     = Some (mset (map rr_transaction_id results) + mset (map be_transaction_id errors) + mset ids)"
  by (induction ids arbitrary: w results errors)
     (simp_all add: batch_reported_simps Let_def call_integration_def ac_simps
        split: option.splits sum.splits prod.splits)

lemma alerts_batch_loop_reported:
  "batch_reported alr_transaction_id
       (fst (alerts_batch_loop cardano w results errors (map Some xs)))
     = Some (mset (map alr_transaction_id results) + mset (map be_transaction_id errors)
             + mset (map ad_transaction_id xs))"
  by (induction xs arbitrary: w results errors)
     (simp_all add: batch_reported_simps Let_def call_integration_def ac_simps
        split: option.splits sum.splits prod.splits)

lemma createTransaction_tid:
  "createTransaction w d = Inr (w', i, tid) \<Longrightarrow> td_transaction_id d = Some tid"
  by (auto simp: createTransaction_def Let_def split: option.splits if_splits)

lemma transactions_batch_loop_reported:
  "batch_reported (\<lambda>r. Some (txr_transaction_id r))
       (fst (transactions_batch_loop json_parse to_number python w results errors (map Some xs)))
     = Some (mset (map (\<lambda>r. Some (txr_transaction_id r)) results)
             + mset (map be_transaction_id errors)
             + mset (map td_transaction_id xs))"
proof (induction xs arbitrary: w results errors)
  case Nil
  then show ?case by (simp add: batch_reported_simps)
next
  case (Cons x xs)
  show ?case
    by (auto simp: Cons.IH batch_reported_simps Let_def ac_simps
        split: option.splits sum.splits prod.splits
        dest: createTransaction_tid)
qed

text \<open>
  A \<^verbatim>\<open>null\<close> element anywhere in the array: on the alert and the transaction batch the
  \<^verbatim>\<open>catch\<close> of the element throws itself, and the handler answers 500.
\<close>

lemma alerts_batch_loop_null:
  "None \<in> set items \<Longrightarrow> fst (alerts_batch_loop cardano w results errors items) = Inl null_item_error"
proof (induction items arbitrary: w results errors)
  case Nil
  then show ?case by simp
next
  case (Cons x items)
  show ?case
  proof (cases x)
    case None
    then show ?thesis by simp
  next
    case (Some alertData)
    with Cons.prems have "None \<in> set items" by simp
    note IH = Cons.IH [OF this]
    from Some show ?thesis
      by (simp add: IH Let_def call_integration_def split: option.splits sum.splits prod.splits)
  qed
qed

lemma transactions_batch_loop_null:
  "None \<in> set items \<Longrightarrow>
     fst (transactions_batch_loop json_parse to_number python w results errors items)
       = Inl null_item_error"
proof (induction items arbitrary: w results errors)
  case Nil
  then show ?case by simp
next
  case (Cons x items)
  show ?case
  proof (cases x)
    case None
    then show ?thesis by simp
  next
    case (Some transactionData)
    with Cons.prems have "None \<in> set items" by simp
    note IH = Cons.IH [OF this]
    from Some show ?thesis
      by (simp add: IH Let_def split: option.splits sum.splits prod.splits)
  qed
qed

lemma post_alerts_batch_null:
  "None \<in> set items \<Longrightarrow>
     fst (post_alerts_batch cardano w (Some items))
       = Server_Error ''Failed to process batch fraud alerts'' null_item_error"
  using alerts_batch_loop_null [of items cardano w "[]" "[]"]
  by (cases "alerts_batch_loop cardano w [] [] items") (simp add: post_alerts_batch_def)

lemma post_transactions_batch_null:
  "None \<in> set items \<Longrightarrow>
     fst (post_transactions_batch json_parse to_number python w (Some items))
       = Server_Error ''Failed to process batch transactions'' null_item_error"
  using transactions_batch_loop_null [of items json_parse to_number python w "[]" "[]"]
  by (cases "transactions_batch_loop json_parse to_number python w [] [] items")
     (simp add: post_transactions_batch_def)

lemma string_of_nat_digit: "n < 10 \<Longrightarrow> string_of_nat n = [''0123456789'' ! n]"
  by (subst string_of_nat.simps) simp

text \<open>
  For items that are objects (and for every identifier of \<^verbatim>\<open>batch-record\<close>, a \<^verbatim>\<open>null\<close> one
  included) the loops isolate the items. A loop over a list that is split in two is the
  loop over the first part followed by the loop over the second part, from the state and
  the lists that the first part left; and each route answers 201 with an entry for every
  item, \<^verbatim>\<open>processed\<close> being the number of successes and the message giving both counts.
\<close>

lemma alerts_batch_loop_append:
  "alerts_batch_loop cardano w results errors (xs @ ys) =
     (case alerts_batch_loop cardano w results errors xs of
        (Inl message, w') \<Rightarrow> (Inl message, w')
      | (Inr (results', errors'), w') \<Rightarrow> alerts_batch_loop cardano w' results' errors' ys)"
proof (induction xs arbitrary: w results errors)
  case Nil
  then show ?case by simp
next
  case (Cons x xs)
  show ?case
    by (cases x)
       (simp_all add: Cons.IH Let_def call_integration_def
          split: option.splits sum.splits prod.splits)
qed

lemma batch_record_loop_append:
  "batch_record_loop cardano w results errors (xs @ ys) =
     (case batch_record_loop cardano w results errors xs of
        (Inl message, w') \<Rightarrow> (Inl message, w')
      | (Inr (results', errors'), w') \<Rightarrow> batch_record_loop cardano w' results' errors' ys)"
  by (induction xs arbitrary: w results errors)
     (simp_all add: Let_def call_integration_def split: option.splits sum.splits prod.splits)

lemma transactions_batch_loop_append:
  "transactions_batch_loop json_parse to_number python w results errors (xs @ ys) =
     (case transactions_batch_loop json_parse to_number python w results errors xs of
        (Inl message, w') \<Rightarrow> (Inl message, w')
      | (Inr (results', errors'), w') \<Rightarrow>
          transactions_batch_loop json_parse to_number python w' results' errors' ys)"
proof (induction xs arbitrary: w results errors)
  case Nil
  then show ?case by simp
next
  case (Cons x xs)
  show ?case
    by (cases x)
       (simp_all add: Cons.IH Let_def split: option.splits sum.splits prod.splits)
qed

lemma batch_items_reported_once:
  "(\<exists>body w'. post_batch_record cardano w (Some ids) = (Created body, w')
       \<and> bb_processed body = length (bb_results body)
       \<and> mset (map rr_transaction_id (bb_results body))
           + mset (map be_transaction_id (bb_errors body)) = mset ids
       \<and> bb_message body = ''Batch recording completed: ''
            @ string_of_nat (length (bb_results body)) @ '' successful, ''
            @ string_of_nat (length (bb_errors body)) @ '' errors'')
   \<and> (\<exists>body w'. post_alerts_batch cardano w (Some (map Some alerts)) = (Created body, w')
       \<and> bb_processed body = length (bb_results body)
       \<and> mset (map alr_transaction_id (bb_results body))
           + mset (map be_transaction_id (bb_errors body)) = mset (map ad_transaction_id alerts)
       \<and> bb_message body = ''Batch processing completed: ''
            @ string_of_nat (length (bb_results body)) @ '' successful, ''
            @ string_of_nat (length (bb_errors body)) @ '' errors'')
   \<and> (\<exists>body w'. post_transactions_batch json_parse to_number python w (Some (map Some txs))
           = (Created body, w')
       \<and> bb_processed body = length (bb_results body)
       \<and> mset (map (\<lambda>r. Some (txr_transaction_id r)) (bb_results body))
           + mset (map be_transaction_id (bb_errors body)) = mset (map td_transaction_id txs)
       \<and> bb_message body = ''Batch processing completed: ''
            @ string_of_nat (length (bb_results body)) @ '' successful, ''
            @ string_of_nat (length (bb_errors body)) @ '' errors'')"
proof (intro conjI)
  obtain outcome w' where l: "batch_record_loop cardano w [] [] ids = (outcome, w')"
    by (cases "batch_record_loop cardano w [] [] ids")
  from batch_record_loop_reported [of cardano w "[]" "[]" ids] l
  have "batch_reported rr_transaction_id outcome = Some (mset ids)" by simp
  from batch_reported_Some [OF this] obtain rs es where
    "outcome = Inr (rs, es)"
    "mset (map rr_transaction_id rs) + mset (map be_transaction_id es) = mset ids" by blast
  with l show "\<exists>body w'. post_batch_record cardano w (Some ids) = (Created body, w')
       \<and> bb_processed body = length (bb_results body)
       \<and> mset (map rr_transaction_id (bb_results body))
           + mset (map be_transaction_id (bb_errors body)) = mset ids
       \<and> bb_message body = ''Batch recording completed: ''
            @ string_of_nat (length (bb_results body)) @ '' successful, ''
            @ string_of_nat (length (bb_errors body)) @ '' errors''"
    by (simp add: post_batch_record_def)
next
  obtain outcome w' where
    l: "alerts_batch_loop cardano w [] [] (map Some alerts) = (outcome, w')"
    by (cases "alerts_batch_loop cardano w [] [] (map Some alerts)")
  from alerts_batch_loop_reported [of cardano w "[]" "[]" alerts] l
  have "batch_reported alr_transaction_id outcome = Some (mset (map ad_transaction_id alerts))"
    by simp
  from batch_reported_Some [OF this] obtain rs es where
    "outcome = Inr (rs, es)"
    "mset (map alr_transaction_id rs) + mset (map be_transaction_id es)
       = mset (map ad_transaction_id alerts)" by blast
  with l show "\<exists>body w'. post_alerts_batch cardano w (Some (map Some alerts)) = (Created body, w')
       \<and> bb_processed body = length (bb_results body)
       \<and> mset (map alr_transaction_id (bb_results body))
           + mset (map be_transaction_id (bb_errors body)) = mset (map ad_transaction_id alerts)
       \<and> bb_message body = ''Batch processing completed: ''
            @ string_of_nat (length (bb_results body)) @ '' successful, ''
            @ string_of_nat (length (bb_errors body)) @ '' errors''"
    by (simp add: post_alerts_batch_def)
next
  obtain outcome w' where
    l: "transactions_batch_loop json_parse to_number python w [] [] (map Some txs) = (outcome, w')"
    by (cases "transactions_batch_loop json_parse to_number python w [] [] (map Some txs)")
  from transactions_batch_loop_reported [of json_parse to_number python w "[]" "[]" txs] l
  have "batch_reported (\<lambda>r. Some (txr_transaction_id r)) outcome
          = Some (mset (map td_transaction_id txs))"
    by simp
  from batch_reported_Some [OF this] obtain rs es where
    "outcome = Inr (rs, es)"
    "mset (map (\<lambda>r. Some (txr_transaction_id r)) rs) + mset (map be_transaction_id es)
       = mset (map td_transaction_id txs)" by blast
  with l show "\<exists>body w'. post_transactions_batch json_parse to_number python w (Some (map Some txs))
           = (Created body, w')
       \<and> bb_processed body = length (bb_results body)
       \<and> mset (map (\<lambda>r. Some (txr_transaction_id r)) (bb_results body))
           + mset (map be_transaction_id (bb_errors body)) = mset (map td_transaction_id txs)
       \<and> bb_message body = ''Batch processing completed: ''
            @ string_of_nat (length (bb_results body)) @ '' successful, ''
            @ string_of_nat (length (bb_errors body)) @ '' errors''"
    by (simp add: post_transactions_batch_def)
qed

lemma batch_items_reported_example:
  "fst (post_alerts_batch flaky_ledger demo_world
          (Some (map Some [demo_unknown_alert, demo_batch_alert, demo_batch_alert])))
     = Created \<lparr>bb_success = True, bb_processed = 1,
                 bb_results =
                   [\<lparr>alr_alert_id = 2, alr_transaction_id = Some ''TX1'',
                     alr_blockchain_record =
                       \<lparr>rd_transaction_id = Some ''TX1'', rd_cardano_tx_hash = Some ''0xaa'',
                        rd_nft_id = None, rd_metadata = None, rd_block_height = None,
                        rd_confirmation_status = Some ''pending'', rd_created_at = None\<rparr>,
                     alr_status = ''success''\<rparr>],
                 bb_errors =
                   [\<lparr>be_transaction_id = Some ''TX9'', be_error = ''Transaction not found''\<rparr>,
                    \<lparr>be_transaction_id = Some ''TX1'', be_error = ''LedgerUnavailable''\<rparr>],
                 bb_message = ''Batch processing completed: 1 successful, 2 errors''\<rparr>
   \<and> fst (post_batch_record flaky_ledger demo_world (Some [Some ''TX9'', Some ''TX1'', Some ''TX2'']))
     = Created \<lparr>bb_success = True, bb_processed = 1,
                 bb_results =
                   [\<lparr>rr_transaction_id = Some ''TX2'',
                     rr_blockchain_record =
                       \<lparr>rd_transaction_id = Some ''TX2'', rd_cardano_tx_hash = Some ''0xaa'',
                        rd_nft_id = None, rd_metadata = None, rd_block_height = None,
                        rd_confirmation_status = Some ''pending'', rd_created_at = None\<rparr>,
                     rr_status = ''success''\<rparr>],
                 bb_errors =
                   [\<lparr>be_transaction_id = Some ''TX9'', be_error = ''Transaction not found''\<rparr>,
                    \<lparr>be_transaction_id = Some ''TX1'', be_error = ''LedgerUnavailable''\<rparr>],
                 bb_message = ''Batch recording completed: 1 successful, 2 errors''\<rparr>"
proof -
  have a: "fst (post_alerts_batch flaky_ledger demo_world
          (Some (map Some [demo_unknown_alert, demo_batch_alert, demo_batch_alert])))
     = Created \<lparr>bb_success = True, bb_processed = 1,
                 bb_results =
                   [\<lparr>alr_alert_id = 2, alr_transaction_id = Some ''TX1'',
                     alr_blockchain_record =
                       \<lparr>rd_transaction_id = Some ''TX1'', rd_cardano_tx_hash = Some ''0xaa'',
                        rd_nft_id = None, rd_metadata = None, rd_block_height = None,
                        rd_confirmation_status = Some ''pending'', rd_created_at = None\<rparr>,
                     alr_status = ''success''\<rparr>],
                 bb_errors =
                   [\<lparr>be_transaction_id = Some ''TX9'', be_error = ''Transaction not found''\<rparr>,
                    \<lparr>be_transaction_id = Some ''TX1'', be_error = ''LedgerUnavailable''\<rparr>],
                 bb_message = ''Batch processing completed: 1 successful, 2 errors''\<rparr>"
    by (simp add: post_alerts_batch_def getTransaction_def demo_unknown_alert_def
        demo_world_def empty_world_def demo_row_def demo_legit_row_def demo_batch_alert_def
        createFraudAlert_def call_integration_def flaky_ledger_def demo_ledger_def
        updateFraudAlertWithBlockchain_def createBlockchainRecord_def string_of_nat_digit)
  have b: "fst (post_batch_record flaky_ledger demo_world (Some [Some ''TX9'', Some ''TX1'', Some ''TX2'']))
     = Created \<lparr>bb_success = True, bb_processed = 1,
                 bb_results =
                   [\<lparr>rr_transaction_id = Some ''TX2'',
                     rr_blockchain_record =
                       \<lparr>rd_transaction_id = Some ''TX2'', rd_cardano_tx_hash = Some ''0xaa'',
                        rd_nft_id = None, rd_metadata = None, rd_block_height = None,
                        rd_confirmation_status = Some ''pending'', rd_created_at = None\<rparr>,
                     rr_status = ''success''\<rparr>],
                 bb_errors =
                   [\<lparr>be_transaction_id = Some ''TX9'', be_error = ''Transaction not found''\<rparr>,
                    \<lparr>be_transaction_id = Some ''TX1'', be_error = ''LedgerUnavailable''\<rparr>],
                 bb_message = ''Batch recording completed: 1 successful, 2 errors''\<rparr>"
    by (simp add: post_batch_record_def getTransaction_def
        demo_world_def empty_world_def demo_row_def demo_legit_row_def
        call_integration_def flaky_ledger_def demo_ledger_def
        createBlockchainRecord_def string_of_nat_digit)
  from batch_items_reported_once
      [of flaky_ledger demo_world "[Some ''TX9'', Some ''TX1'', Some ''TX2'']"
        "[demo_unknown_alert, demo_batch_alert, demo_batch_alert]"] a b
  show ?thesis by simp
qed

text \<open>
  Claim C10 says that, for every input sequence, the failure of one item is recorded in
  that item's error entry and never aborts the items after it. A \<^verbatim>\<open>null\<close> element breaks
  this on two of the three routes. For the body \<^verbatim>\<open>{"alerts": [null, a]}\<close>,
  \<^verbatim>\<open>POST /api/fraud/alerts/batch\<close> answers 500 with no per-item entry and never processes
  \<open>a\<close> (the state is unchanged), although \<open>a\<close> alone is recorded with success; with the
  \<^verbatim>\<open>null\<close> in second place the first alert and its ledger record are stored and the answer
  is the same 500. \<^verbatim>\<open>POST /api/transactions/batch\<close> does the same with
  \<^verbatim>\<open>{"transactions": [null, t]}\<close>. The sibling route \<^verbatim>\<open>POST /api/blockchain/batch-record\<close>
  gives the \<^verbatim>\<open>null\<close> element its own error entry and goes on to the next item.
\<close>

theorem C10_null_element_aborts_batch:
  "post_alerts_batch demo_ledger demo_world (Some [None, Some demo_batch_alert])
     = (Server_Error ''Failed to process batch fraud alerts'' null_item_error, demo_world)
   \<and> fst (post_alerts_batch demo_ledger demo_world (Some [Some demo_batch_alert]))
     = Created \<lparr>bb_success = True, bb_processed = 1,
                 bb_results =
                   [\<lparr>alr_alert_id = 1, alr_transaction_id = Some ''TX1'',
                     alr_blockchain_record =
                       \<lparr>rd_transaction_id = Some ''TX1'', rd_cardano_tx_hash = Some ''0xa'',
                        rd_nft_id = None, rd_metadata = None, rd_block_height = None,
                        rd_confirmation_status = Some ''pending'', rd_created_at = None\<rparr>,
                     alr_status = ''success''\<rparr>],
                 bb_errors = [],
                 bb_message = ''Batch processing completed: 1 successful, 0 errors''\<rparr>
   \<and> fst (post_alerts_batch demo_ledger demo_world
            (Some [Some demo_batch_alert, None, Some demo_batch_alert]))
     = Server_Error ''Failed to process batch fraud alerts'' null_item_error
   \<and> map fa_transaction_id
        (fraud_alerts (snd (post_alerts_batch demo_ledger demo_world
                              (Some [Some demo_batch_alert, None, Some demo_batch_alert]))))
     = [''TX1'']
   \<and> map br_cardano_tx_hash
        (blockchain_records (snd (post_alerts_batch demo_ledger demo_world
                                    (Some [Some demo_batch_alert, None, Some demo_batch_alert]))))
     = [''0xa'']
   \<and> post_transactions_batch demo_json_parse demo_to_number demo_failing_python demo_world
        (Some [None, Some demo_new_transaction])
     = (Server_Error ''Failed to process batch transactions'' null_item_error, demo_world)
   \<and> fst (post_transactions_batch demo_json_parse demo_to_number demo_failing_python demo_world
            (Some [Some demo_new_transaction]))
     = Created \<lparr>bb_success = True, bb_processed = 1,
                 bb_results =
                   [\<lparr>txr_transaction_id = ''TX3'', txr_fraud_detection = fallback_prediction,
                     txr_status = ''success''\<rparr>],
                 bb_errors = [],
                 bb_message = ''Batch processing completed: 1 successful, 0 errors''\<rparr>
   \<and> fst (post_batch_record demo_ledger demo_world (Some [None, Some ''TX1'']))
     = Created \<lparr>bb_success = True, bb_processed = 1,
                 bb_results =
                   [\<lparr>rr_transaction_id = Some ''TX1'',
                     rr_blockchain_record =
                       \<lparr>rd_transaction_id = Some ''TX1'', rd_cardano_tx_hash = Some ''0xa'',
                        rd_nft_id = None, rd_metadata = None, rd_block_height = None,
                        rd_confirmation_status = Some ''pending'', rd_created_at = None\<rparr>,
                     rr_status = ''success''\<rparr>],
                 bb_errors = [\<lparr>be_transaction_id = None, be_error = ''Transaction not found''\<rparr>],
                 bb_message = ''Batch recording completed: 1 successful, 1 errors''\<rparr>"
  by (simp add: post_alerts_batch_def post_transactions_batch_def post_batch_record_def
      getTransaction_def demo_world_def empty_world_def demo_row_def demo_legit_row_def
      demo_batch_alert_def demo_new_transaction_def createFraudAlert_def call_integration_def
      demo_ledger_def updateFraudAlertWithBlockchain_def createBlockchainRecord_def
      stored_prediction_def js_or_def missing_fields_def missing_def createTransaction_def
      runFraudDetection_def demo_failing_python_def updateTransactionFraud_def
      string_of_nat_digit)

end
